theory Spec2Isabelle
  imports Main
begin

section \<open>HoopsFactory downloader: a shallow embedding of \<open>main.py\<close>\<close>

text \<open>
  Every effectful call of the program (a browser action, an HTTP request, a file
  operation) either returns or raises. The model receives the answer of the outside world
  as data and makes each raise a branch.
\<close>

datatype 'a outcome = Returns 'a | Raises

subsection \<open>Dates\<close>

text \<open>
  A date is its proleptic Gregorian ordinal, as \<open>date.toordinal()\<close> gives it: day 1 is
  0001-01-01, a Monday, and the last representable day is 9999-12-31. \<open>weekday\<close> is
  Python's: Monday is 0 and Wednesday is 2. Subtracting a \<open>timedelta\<close> raises
  \<open>OverflowError\<close> when the result leaves the representable range.
\<close>

definition MAXORDINAL :: int where
  "MAXORDINAL = 3652059"

definition weekday :: "int \<Rightarrow> int" where
  "weekday d = (d + 6) mod 7"

definition sub_days :: "int \<Rightarrow> int \<Rightarrow> int outcome" where
  "sub_days d k = (if 1 \<le> d - k \<and> d - k \<le> MAXORDINAL then Returns (d - k) else Raises)"

text \<open>Lines 124 to 132 of \<open>get_previous_wednesday\<close>: the date before formatting.\<close>

definition prev_wednesday_date :: "int \<Rightarrow> int outcome" where
  "prev_wednesday_date today =
     (let days_since_wednesday = (weekday today - 2) mod 7
      in if days_since_wednesday = 0
         then sub_days today 7
         else sub_days today days_since_wednesday)"

text \<open>
  \<open>get_previous_wednesday\<close> formats the date with \<open>strftime("%Y%m%d")\<close>; the library's
  formatter is a parameter.
\<close>

definition get_previous_wednesday :: "(int \<Rightarrow> string) \<Rightarrow> int \<Rightarrow> string outcome" where
  "get_previous_wednesday strftime today =
     (case prev_wednesday_date today of
        Raises \<Rightarrow> Raises
      | Returns d \<Rightarrow> Returns (strftime d))"

subsection \<open>Strings\<close>

text \<open>
  A Python \<open>str\<close> is a sequence of code points. A title is modelled by a \<open>string\<close> whose
  characters are the code points below U+0100 (Latin-1, which covers the French titles of
  the site). The character classes are those of Python 3 on \<open>str\<close>, where \<open>\w\<close>,
  \<open>\s\<close> and \<open>\d\<close> follow the Unicode database: \<open>\s\<close> and \<open>str.strip()\<close> use
  \<open>str.isspace\<close>, \<open>\d\<close> uses \<open>str.isdecimal\<close>, and \<open>\w\<close> is \<open>str.isalnum\<close> or an
  underscore.
\<close>

definition isspace :: "char \<Rightarrow> bool" where
  "isspace c =
     (let n = (of_char c :: nat)
      in (9 \<le> n \<and> n \<le> 13) \<or> (28 \<le> n \<and> n \<le> 32) \<or> n = 133 \<or> n = 160)"

definition isdecimal :: "char \<Rightarrow> bool" where
  "isdecimal c = (let n = (of_char c :: nat) in 48 \<le> n \<and> n \<le> 57)"

definition ascii_alnum :: "char \<Rightarrow> bool" where
  "ascii_alnum c =
     (let n = (of_char c :: nat)
      in (48 \<le> n \<and> n \<le> 57) \<or> (65 \<le> n \<and> n \<le> 90) \<or> (97 \<le> n \<and> n \<le> 122))"

definition isalnum :: "char \<Rightarrow> bool" where
  "isalnum c =
     (let n = (of_char c :: nat)
      in ascii_alnum c
         \<or> n = 170 \<or> n = 178 \<or> n = 179 \<or> n = 181 \<or> n = 185 \<or> n = 186
         \<or> (188 \<le> n \<and> n \<le> 190)
         \<or> (192 \<le> n \<and> n \<le> 214) \<or> (216 \<le> n \<and> n \<le> 246) \<or> (248 \<le> n \<and> n \<le> 255))"

definition is_word :: "char \<Rightarrow> bool" where
  "is_word c = (isalnum c \<or> c = CHR ''_'')"

text \<open>\<open>int(s)\<close> on a string of decimal digits.\<close>

definition py_int :: "string \<Rightarrow> nat" where
  "py_int s = foldl (\<lambda>n c. 10 * n + (of_char c - 48)) 0 s"

subsection \<open>The safe filename (\<open>download_video\<close>, lines 386 to 388)\<close>

text \<open>
  \<open>re.sub(r'[^\w\s-]', '', title)\<close> keeps the characters of the class \<open>[\w\s-]\<close>;
  \<open>.strip()\<close> removes the white space at both ends; \<open>re.sub(r'[-\s]+', '_', ...)\<close>
  replaces every maximal run of hyphens and white space by one underscore.
\<close>

definition kept_char :: "char \<Rightarrow> bool" where
  "kept_char c = (is_word c \<or> isspace c \<or> c = CHR ''-'')"

definition is_sep :: "char \<Rightarrow> bool" where
  "is_sep c = (c = CHR ''-'' \<or> isspace c)"

definition strip :: "string \<Rightarrow> string" where
  "strip s = rev (dropWhile isspace (rev (dropWhile isspace s)))"

function sub_runs :: "string \<Rightarrow> string" where
  "sub_runs [] = []"
| "sub_runs (c # cs) =
     (if is_sep c then CHR ''_'' # sub_runs (dropWhile is_sep cs) else c # sub_runs cs)"
  by pat_completeness auto
termination
  by (relation "measure length") (auto simp add: less_Suc_eq_le length_dropWhile_le)

definition safe_title :: "string \<Rightarrow> string" where
  "safe_title title = sub_runs (strip (filter kept_char title))"

definition filename :: "string \<Rightarrow> string" where
  "filename title = safe_title title @ ''.mp4''"

subsection \<open>Video records and the log\<close>

record video =
  title :: string
  downloadUrl :: string
  directUrl :: "string option"
  videoSrc :: "string option"
  index :: nat

datatype level = DEBUG | INFO | WARNING | ERROR

datatype message =
    Keeping_video string
  | Skipping_video string
  | Could_not_determine_time string
  | Found_total nat nat
  | Error_extracting_video_links
  | Setting_up_filters
  | Selected_center
  | Selected_court
  | Selected_date string
  | Clicked_ok
  | Date_not_available string
  | Keeping_all_hours
  | Error_selecting_filters

type_synonym log = "(level \<times> message) list"

subsection \<open>The time filter (\<open>get_video_links\<close>, lines 341 to 368)\<close>

text \<open>
  \<open>re.search(r'(\d{1,2})h(\d{2})', title)\<close>. At one position the engine tries two digits
  for the first group, then one (the quantifier is greedy and backtracks); \<open>re.search\<close>
  scans the positions from the left and returns the first match, as the pair of groups.
\<close>

fun match_here :: "string \<Rightarrow> (string \<times> string) option" where
  "match_here (a # b # c # d # e # rest) =
     (if isdecimal a \<and> isdecimal b \<and> c = CHR ''h'' \<and> isdecimal d \<and> isdecimal e
      then Some ([a, b], [d, e])
      else if isdecimal a \<and> b = CHR ''h'' \<and> isdecimal c \<and> isdecimal d
      then Some ([a], [c, d])
      else None)"
| "match_here [a, b, c, d] =
     (if isdecimal a \<and> b = CHR ''h'' \<and> isdecimal c \<and> isdecimal d
      then Some ([a], [c, d])
      else None)"
| "match_here s = None"

fun re_search :: "string \<Rightarrow> (string \<times> string) option" where
  "re_search [] = None"
| "re_search (c # cs) =
     (case match_here (c # cs) of
        Some g \<Rightarrow> Some g
      | None \<Rightarrow> re_search cs)"

text \<open>
  The body of the loop over \<open>video_data\<close>: whether the video is appended to
  \<open>filtered_videos\<close>, and the line it logs. The title is a string and the groups are
  decimal digits, so nothing in the body raises and the inner handler is never entered.
\<close>

definition filter_one :: "video \<Rightarrow> bool \<times> (level \<times> message)" where
  "filter_one v =
     (case re_search (title v) of
        Some (g1, g2) \<Rightarrow>
          (let hour = py_int g1; minute = py_int g2; time_value = hour * 100 + minute
           in if 1200 \<le> time_value \<and> time_value \<le> 1330
              then (True, (INFO, Keeping_video (title v)))
              else (False, (INFO, Skipping_video (title v))))
      | None \<Rightarrow> (True, (WARNING, Could_not_determine_time (title v))))"

fun filter_by_time :: "video list \<Rightarrow> video list \<times> log" where
  "filter_by_time [] = ([], [])"
| "filter_by_time (v # vs) =
     (let (keep, line) = filter_one v; (filtered_videos, lg) = filter_by_time vs
      in (if keep then v # filtered_videos else filtered_videos, line # lg))"

text \<open>
  \<open>get_video_links\<close>. Waiting for the cards and running the in-page script are browser
  actions: their joint answer is the list of records the script returns, or \<open>Raises\<close> when
  either raises (no card within the timeout, for one). The outer handler turns any
  exception into the empty list.
\<close>

definition get_video_links :: "video list outcome \<Rightarrow> video list \<times> log" where
  "get_video_links scraped =
     (case scraped of
        Raises \<Rightarrow> ([], [(ERROR, Error_extracting_video_links)])
      | Returns video_data \<Rightarrow>
          (let (filtered_videos, lg) = filter_by_time video_data
           in (filtered_videos,
               lg @ [(INFO, Found_total (length video_data) (length filtered_videos))])))"

subsection \<open>The properties of titles that the specification speaks of\<close>

text \<open>The class \<open>[A-Za-z0-9_]\<close>.\<close>

definition ascii_word :: "char \<Rightarrow> bool" where
  "ascii_word c = (ascii_alnum c \<or> c = CHR ''_'')"

definition is_ascii :: "char \<Rightarrow> bool" where
  "is_ascii c = ((of_char c :: nat) < 128)"

text \<open>
  A time pattern, in the words of the specification: one or two digits for the hour, the
  letter h, two digits for the minute, here found at offset \<open>i\<close> of the title. It is in
  the window when hour times 100 plus minute lies in 1200 to 1330, both included.
\<close>

definition time_pattern_at :: "string \<Rightarrow> nat \<Rightarrow> string \<Rightarrow> string \<Rightarrow> bool" where
  "time_pattern_at t i hs ms =
     ((length hs = 1 \<or> length hs = 2) \<and> list_all isdecimal hs
      \<and> length ms = 2 \<and> list_all isdecimal ms
      \<and> (\<exists>rest. drop i t = hs @ ''h'' @ ms @ rest))"

definition in_window :: "string \<Rightarrow> string \<Rightarrow> bool" where
  "in_window hs ms =
     (1200 \<le> py_int hs * 100 + py_int ms \<and> py_int hs * 100 + py_int ms \<le> 1330)"

definition has_time_pattern :: "string \<Rightarrow> bool" where
  "has_time_pattern t = (\<exists>i hs ms. time_pattern_at t i hs ms)"

definition first_time_pattern :: "string \<Rightarrow> string \<Rightarrow> string \<Rightarrow> bool" where
  "first_time_pattern t hs ms =
     (\<exists>i. time_pattern_at t i hs ms \<and> (\<forall>j<i. \<forall>hs' ms'. \<not> time_pattern_at t j hs' ms'))"

text \<open>
  The filter as the specification words it: a title is kept when it holds a time pattern
  in the window, or no time pattern at all.
\<close>

definition claimed_keep :: "string \<Rightarrow> bool" where
  "claimed_keep t =
     (\<not> has_time_pattern t \<or> (\<exists>i hs ms. time_pattern_at t i hs ms \<and> in_window hs ms))"

text \<open>The same with the leftmost time pattern of the title deciding.\<close>

definition first_match_keep :: "string \<Rightarrow> bool" where
  "first_match_keep t =
     (\<not> has_time_pattern t \<or> (\<exists>hs ms. first_time_pattern t hs ms \<and> in_window hs ms))"

subsection \<open>Downloading one video (\<open>download_video\<close>)\<close>

text \<open>
  The files on disk are a map from paths to contents. The outside world answers each call
  of \<open>download_video\<close>: creating the dated folder, the HTTP request, opening the
  destination, and the browser actions. An HTTP response carries its status code, the
  chunks that \<open>iter_content\<close> yields, and whether the transfer ends normally (when it
  does not, an exception is raised after the chunks received so far were written).
\<close>

type_synonym path = string
type_synonym disk = "path \<rightharpoonup> string"

datatype http_response = Response nat "string list" bool

record download_env =
  mkdir :: "path \<Rightarrow> unit outcome"
  requests_get :: "string \<Rightarrow> http_response outcome"
  open_wb :: "path \<Rightarrow> unit outcome"
  set_extra_http_headers :: "unit outcome"
  expect_download :: "string \<Rightarrow> string outcome"
  save_as :: "path \<Rightarrow> unit outcome"
  goto :: "string \<Rightarrow> unit outcome"
  evaluate_click :: "nat \<Rightarrow> bool outcome"

datatype strategy = Direct_fetch | Browser_download | Click_trigger

record download_result =
  result :: bool
  attempts :: "strategy list"
  files :: disk

text \<open>Python's truth value of an optional string, and \<open>a or b\<close>.\<close>

definition truthy :: "string option \<Rightarrow> bool" where
  "truthy x = (case x of None \<Rightarrow> False | Some u \<Rightarrow> u \<noteq> [])"

definition py_or :: "string option \<Rightarrow> string option \<Rightarrow> string option" where
  "py_or a b = (if truthy a then a else b)"

text \<open>\<open>response.raise_for_status()\<close> raises on the client and server error codes.\<close>

definition raise_for_status :: "nat \<Rightarrow> unit outcome" where
  "raise_for_status status = (if 400 \<le> status \<and> status < 600 then Raises else Returns ())"

text \<open>
  Method 1 (lines 404 to 423): the request, the status check, then the destination is
  opened with mode \<open>'wb'\<close>, which truncates the file or creates it, and the non-empty
  chunks are written. The pair is whether the method returned \<open>True\<close>, and the disk.
\<close>

definition direct_fetch :: "download_env \<Rightarrow> disk \<Rightarrow> string \<Rightarrow> path \<Rightarrow> bool \<times> disk" where
  "direct_fetch env disk0 video_url download_path =
     (case requests_get env video_url of
        Raises \<Rightarrow> (False, disk0)
      | Returns (Response status chunks complete) \<Rightarrow>
          (case raise_for_status status of
             Raises \<Rightarrow> (False, disk0)
           | Returns _ \<Rightarrow>
               (case open_wb env download_path of
                  Raises \<Rightarrow> (False, disk0)
                | Returns _ \<Rightarrow>
                    (complete,
                     disk0(download_path \<mapsto> concat (filter (\<lambda>chunk. chunk \<noteq> []) chunks))))))"

text \<open>
  Method 2 (lines 426 to 448): the page navigates to the download URL while the browser's
  download event is awaited, and the download is saved at the destination.
\<close>

definition browser_download :: "download_env \<Rightarrow> disk \<Rightarrow> string \<Rightarrow> path \<Rightarrow> bool \<times> disk" where
  "browser_download env disk0 download_url download_path =
     (case set_extra_http_headers env of
        Raises \<Rightarrow> (False, disk0)
      | Returns _ \<Rightarrow>
          (case expect_download env download_url of
             Raises \<Rightarrow> (False, disk0)
           | Returns content \<Rightarrow>
               (case save_as env download_path of
                  Raises \<Rightarrow> (False, disk0)
                | Returns _ \<Rightarrow> (True, disk0(download_path \<mapsto> content)))))"

text \<open>
  Method 3 (lines 451 to 479): back to the listing, then the in-page script clicks the
  download control of the card at the video's index and says whether it found one. No file
  is written by the program on this path.
\<close>

definition click_trigger :: "download_env \<Rightarrow> string \<Rightarrow> nat \<Rightarrow> bool" where
  "click_trigger env base_url i =
     (case goto env (base_url @ ''/videos'') of
        Raises \<Rightarrow> False
      | Returns _ \<Rightarrow>
          (case evaluate_click env i of
             Raises \<Rightarrow> False
           | Returns download_result \<Rightarrow> download_result))"

definition download_path_of :: "path \<Rightarrow> string \<Rightarrow> string \<Rightarrow> path" where
  "download_path_of download_dir date_str video_title =
     download_dir @ ''/'' @ date_str @ ''/'' @ filename video_title"

text \<open>
  \<open>download_video\<close>. An exception before the first method (creating the dated folder)
  reaches the outer handler, which returns \<open>False\<close>. Method 1 runs only when
  \<open>directUrl\<close> or \<open>videoSrc\<close> is a non-empty string. The list \<open>attempts\<close> records the
  methods entered, in order.
\<close>

definition download_video ::
  "download_env \<Rightarrow> string \<Rightarrow> path \<Rightarrow> disk \<Rightarrow> video \<Rightarrow> string \<Rightarrow> download_result" where
  "download_video env base_url download_dir disk0 video_data date_str =
     (case mkdir env (download_dir @ ''/'' @ date_str) of
        Raises \<Rightarrow> \<lparr>result = False, attempts = [], files = disk0\<rparr>
      | Returns _ \<Rightarrow>
          (let download_path = download_path_of download_dir date_str (title video_data);
               video_url = py_or (directUrl video_data) (videoSrc video_data);
               (tried, (done1, disk1)) =
                 (case video_url of
                    None \<Rightarrow> ([], (False, disk0))
                  | Some url \<Rightarrow>
                      if url \<noteq> []
                      then ([Direct_fetch], direct_fetch env disk0 url download_path)
                      else ([], (False, disk0)))
           in if done1
              then \<lparr>result = True, attempts = tried, files = disk1\<rparr>
              else
                (let (done2, disk2) =
                       browser_download env disk1 (downloadUrl video_data) download_path
                 in if done2
                    then \<lparr>result = True, attempts = tried @ [Browser_download], files = disk2\<rparr>
                    else \<lparr>result = click_trigger env base_url (index video_data),
                          attempts = tried @ [Browser_download, Click_trigger],
                          files = disk2\<rparr>)))"

text \<open>Whether each method, were it run on this video, would return \<open>True\<close>.\<close>

definition has_direct_url :: "video \<Rightarrow> bool" where
  "has_direct_url v = truthy (py_or (directUrl v) (videoSrc v))"

definition direct_succeeds :: "download_env \<Rightarrow> disk \<Rightarrow> path \<Rightarrow> video \<Rightarrow> bool" where
  "direct_succeeds env disk0 download_path v =
     (case py_or (directUrl v) (videoSrc v) of
        None \<Rightarrow> False
      | Some url \<Rightarrow> url \<noteq> [] \<and> fst (direct_fetch env disk0 url download_path))"

definition direct_rejected :: "download_env \<Rightarrow> video \<Rightarrow> bool" where
  "direct_rejected env v =
     (case py_or (directUrl v) (videoSrc v) of
        None \<Rightarrow> False
      | Some url \<Rightarrow>
          url \<noteq> [] \<and>
          (case requests_get env url of
             Raises \<Rightarrow> True
           | Returns (Response status chunks complete) \<Rightarrow> 400 \<le> status \<and> status < 600))"

definition browser_succeeds :: "download_env \<Rightarrow> path \<Rightarrow> video \<Rightarrow> bool" where
  "browser_succeeds env download_path v =
     (set_extra_http_headers env \<noteq> Raises
      \<and> expect_download env (downloadUrl v) \<noteq> Raises
      \<and> save_as env download_path \<noteq> Raises)"

definition click_succeeds :: "download_env \<Rightarrow> string \<Rightarrow> video \<Rightarrow> bool" where
  "click_succeeds env base_url v =
     (goto env (base_url @ ''/videos'') \<noteq> Raises \<and> evaluate_click env (index v) = Returns True)"

subsection \<open>The filters (\<open>select_filters\<close>)\<close>

text \<open>
  The date select of the page, as the in-page script sees it: the values of its options
  and the value currently selected. \<open>select_filters\<close> makes three clicks and five
  \<open>page.evaluate\<close> calls; the outside world says for each whether it raises.
\<close>

record select_el =
  options :: "string list"
  selected :: string

datatype script = Open_center | Set_center | Set_court | Set_date | Click_ok_button

record filter_env =
  click :: "string \<Rightarrow> unit outcome"
  evaluate :: "script \<Rightarrow> unit outcome"
  videos_days :: "select_el option"

text \<open>
  The script of lines 248 to 263: what it returns, and the select afterwards. The value is
  assigned only when some option carries it.
\<close>

definition js_select_date :: "select_el option \<Rightarrow> string \<Rightarrow> bool \<times> select_el option" where
  "js_select_date element date =
     (case element of
        None \<Rightarrow> (False, None)
      | Some select \<Rightarrow>
          (let optionExists = list_ex (\<lambda>opt. opt = date) (options select)
           in if optionExists
              then (True, Some (select\<lparr>selected := date\<rparr>))
              else (False, element)))"

text \<open>
  \<open>select_filters\<close>: whether it returns \<open>True\<close>, the date select afterwards, and the log.
  The value that the date script returns is not read by the caller; the warning of the
  inner handler is logged when one of the two \<open>page.evaluate\<close> calls of the date step
  raises.
\<close>

definition select_filters ::
  "filter_env \<Rightarrow> (int \<Rightarrow> string) \<Rightarrow> int \<Rightarrow> bool \<times> select_el option \<times> log" where
  "select_filters env strftime today =
     (let failed = (\<lambda>lg. (False, videos_days env, lg @ [(ERROR, Error_selecting_filters)]));
          log0 = [(INFO, Setting_up_filters)];
          log1 = log0 @ [(INFO, Selected_center)];
          log2 = log1 @ [(INFO, Selected_court)]
      in case click env ''#center_list .item-link'' of Raises \<Rightarrow> failed log0 | Returns _ \<Rightarrow>
        (case evaluate env Open_center of Raises \<Rightarrow> failed log0 | Returns _ \<Rightarrow>
        (case evaluate env Set_center of Raises \<Rightarrow> failed log0 | Returns _ \<Rightarrow>
        (case click env ''#court_list .item-link'' of Raises \<Rightarrow> failed log1 | Returns _ \<Rightarrow>
        (case evaluate env Set_court of Raises \<Rightarrow> failed log1 | Returns _ \<Rightarrow>
        (case get_previous_wednesday strftime today of Raises \<Rightarrow> failed log2
         | Returns prev_wednesday \<Rightarrow>
        (case click env ''#day_list .item-link'' of Raises \<Rightarrow> failed log2 | Returns _ \<Rightarrow>
          (let (days, log3) =
                 (case evaluate env Set_date of
                    Raises \<Rightarrow>
                      (videos_days env, log2 @ [(WARNING, Date_not_available prev_wednesday)])
                  | Returns _ \<Rightarrow>
                      (let (returned, days') = js_select_date (videos_days env) prev_wednesday;
                           lg = log2 @ [(INFO, Selected_date prev_wednesday)]
                       in case evaluate env Click_ok_button of
                            Raises \<Rightarrow> (days', lg @ [(WARNING, Date_not_available prev_wednesday)])
                          | Returns _ \<Rightarrow> (days', lg @ [(INFO, Clicked_ok)])))
           in (True, days, log3 @ [(INFO, Keeping_all_hours)])))))))))"

subsection \<open>The session and its teardown (\<open>setup_browser\<close>, \<open>close_browser\<close>)\<close>

text \<open>
  The attributes of the downloader that the run loop touches. A resource is named by the
  number of the attempt that created it; \<open>playwright = None\<close> stands for the attribute not
  being set. The attributes are not reset when the resources are closed.
\<close>

record session =
  headless :: bool
  playwright :: "nat option"
  browser :: "nat option"
  browser_context :: "nat option"
  page :: "nat option"

text \<open>What the outside world answers during one pass of the run loop.\<close>

record attempt_env =
  start_playwright :: "unit outcome"
  launch :: "bool \<Rightarrow> unit outcome"
  new_context :: "unit outcome"
  new_page :: "unit outcome"
  page_goto :: "string \<Rightarrow> unit outcome"
  login :: bool
  filters :: filter_env
  system_date :: int
  cards :: "video list outcome"
  downloads :: download_env
  page_close :: "unit outcome"
  context_close :: "unit outcome"
  browser_close :: "unit outcome"
  playwright_stop :: "unit outcome"

datatype event =
    Attempt nat
  | Launch bool
  | Login_returned bool
  | Filters_returned bool
  | Listed nat
  | Downloaded nat nat
  | Teardown nat
  | Close_page nat
  | Close_context nat
  | Close_browser nat
  | Stop_playwright nat

definition setup_browser ::
  "attempt_env \<Rightarrow> session \<Rightarrow> nat \<Rightarrow> unit outcome \<times> session \<times> event list" where
  "setup_browser env s n =
     (case start_playwright env of
        Raises \<Rightarrow> (Raises, s, [])
      | Returns _ \<Rightarrow>
          (let s1 = s\<lparr>playwright := Some n\<rparr>
           in case launch env (headless s) of
                Raises \<Rightarrow> (Raises, s1, [Launch (headless s)])
              | Returns _ \<Rightarrow>
                  (let s2 = s1\<lparr>browser := Some n\<rparr>
                   in case new_context env of
                        Raises \<Rightarrow> (Raises, s2, [Launch (headless s)])
                      | Returns _ \<Rightarrow>
                          (let s3 = s2\<lparr>browser_context := Some n\<rparr>
                           in case new_page env of
                                Raises \<Rightarrow> (Raises, s3, [Launch (headless s)])
                              | Returns _ \<Rightarrow>
                                  (Returns (), s3\<lparr>page := Some n\<rparr>, [Launch (headless s)])))))"

text \<open>
  One \<open>if resource: await resource.close()\<close> of \<open>close_browser\<close>, followed by the rest of
  the function: an absent resource is skipped, and a close that raises ends the function.
\<close>

definition guarded_close ::
  "nat option \<Rightarrow> (nat \<Rightarrow> event) \<Rightarrow> unit outcome \<Rightarrow> event list \<times> unit outcome
     \<Rightarrow> event list \<times> unit outcome" where
  "guarded_close resource closing answer rest =
     (case resource of
        None \<Rightarrow> rest
      | Some h \<Rightarrow>
          (case answer of
             Raises \<Rightarrow> ([closing h], Raises)
           | Returns _ \<Rightarrow> (closing h # fst rest, snd rest)))"

definition close_browser :: "attempt_env \<Rightarrow> session \<Rightarrow> event list \<times> unit outcome" where
  "close_browser env s =
     guarded_close (page s) Close_page (page_close env)
       (guarded_close (browser_context s) Close_context (context_close env)
          (guarded_close (browser s) Close_browser (browser_close env)
             (guarded_close (playwright s) Stop_playwright (playwright_stop env)
                ([], Returns ()))))"

subsection \<open>The run loop (\<open>download_videos\<close>) and the exit code (\<open>main\<close>)\<close>

definition max_retries :: nat where
  "max_retries = 2"

text \<open>
  How the \<open>try\<close> block of one pass ends: with \<open>continue\<close> after the retry counter was
  incremented, or with \<open>return\<close>. Every failure path has the same shape: retry while
  retries are left, otherwise return a fixed value.
\<close>

datatype exit = Continue | Return bool

definition retry_or :: "nat \<Rightarrow> bool \<Rightarrow> exit" where
  "retry_or retry_count b = (if retry_count < max_retries then Continue else Return b)"

fun download_each ::
  "download_env \<Rightarrow> string \<Rightarrow> path \<Rightarrow> string \<Rightarrow> video list \<Rightarrow> nat \<Rightarrow> disk \<Rightarrow> nat \<times> disk" where
  "download_each env base_url download_dir date_str [] successful_downloads disk0 =
     (successful_downloads, disk0)"
| "download_each env base_url download_dir date_str (video_data # rest) successful_downloads disk0 =
     (let r = download_video env base_url download_dir disk0 video_data date_str
      in download_each env base_url download_dir date_str rest
           (if result r then successful_downloads + 1 else successful_downloads) (files r))"

text \<open>
  The \<open>try\<close> block with its \<open>except\<close> clause (lines 498 to 562). \<open>login\<close>,
  \<open>select_filters\<close>, \<open>get_video_links\<close> and \<open>download_video\<close> catch their own
  exceptions; the other calls may raise into the handler.
\<close>

definition try_block ::
  "attempt_env \<Rightarrow> (int \<Rightarrow> string) \<Rightarrow> string \<Rightarrow> path \<Rightarrow> session \<Rightarrow> nat \<Rightarrow> disk
     \<Rightarrow> exit \<times> session \<times> event list \<times> disk" where
  "try_block env strftime base_url download_dir s retry_count disk0 =
     (let s0 = (if retry_count > 0 \<and> headless s \<and> retry_count = max_retries
                then s\<lparr>headless := False\<rparr> else s);
          (setup, s1, ev) = setup_browser env s0 retry_count
      in case setup of
           Raises \<Rightarrow> (retry_or retry_count False, s1, ev, disk0)
         | Returns _ \<Rightarrow>
        (case page_goto env (base_url @ ''/login'') of
           Raises \<Rightarrow> (retry_or retry_count False, s1, ev, disk0)
         | Returns _ \<Rightarrow>
        (if \<not> login env
         then (retry_or retry_count False, s1, ev @ [Login_returned False], disk0)
         else
        (case page_goto env (base_url @ ''/videos'') of
           Raises \<Rightarrow> (retry_or retry_count False, s1, ev @ [Login_returned True], disk0)
         | Returns _ \<Rightarrow>
        (if \<not> fst (select_filters (filters env) strftime (system_date env))
         then (retry_or retry_count False, s1,
               ev @ [Login_returned True, Filters_returned False], disk0)
         else
          (let video_data_list = fst (get_video_links (cards env));
               ev1 = ev @ [Login_returned True, Filters_returned True,
                           Listed (length video_data_list)]
           in if video_data_list = []
              then (retry_or retry_count True, s1, ev1, disk0)
              else
                (case get_previous_wednesday strftime (system_date env) of
                   Raises \<Rightarrow> (retry_or retry_count False, s1, ev1, disk0)
                 | Returns date_str \<Rightarrow>
                     (let (successful_downloads, disk1) =
                            download_each (downloads env) base_url download_dir date_str
                              video_data_list 0 disk0
                      in (Return True, s1,
                          ev1 @ [Downloaded successful_downloads (length video_data_list)],
                          disk1)))))))))"

text \<open>
  The \<open>while\<close> loop. The \<open>finally\<close> clause runs \<open>close_browser\<close> after every pass; when
  it raises, the exception replaces the pending \<open>continue\<close> or \<open>return\<close> and leaves
  \<open>download_videos\<close>. The answers of the outside world are indexed by the retry counter,
  which is different in every pass. A loop that ends by its condition makes the function
  return \<open>None\<close>.
\<close>

function download_videos_from ::
  "(nat \<Rightarrow> attempt_env) \<Rightarrow> (int \<Rightarrow> string) \<Rightarrow> string \<Rightarrow> path \<Rightarrow> session \<Rightarrow> nat \<Rightarrow> disk
     \<Rightarrow> event list \<Rightarrow> bool option outcome \<times> event list \<times> disk" where
  "download_videos_from envs strftime base_url download_dir s retry_count disk0 trace =
     (if retry_count \<le> max_retries
      then
        (let (ex, s1, ev, disk1) =
               try_block (envs retry_count) strftime base_url download_dir s retry_count disk0;
             (closing, closed) = close_browser (envs retry_count) s1;
             trace1 = trace @ [Attempt retry_count] @ ev @ [Teardown retry_count] @ closing
         in case closed of
              Raises \<Rightarrow> (Raises, trace1, disk1)
            | Returns _ \<Rightarrow>
                (case ex of
                   Return b \<Rightarrow> (Returns (Some b), trace1, disk1)
                 | Continue \<Rightarrow>
                     download_videos_from envs strftime base_url download_dir s1
                       (retry_count + 1) disk1 trace1))
      else (Returns None, trace, disk0))"
  by pat_completeness auto
termination
  by (relation "measure (\<lambda>(envs, strftime, base_url, download_dir, s, retry_count, disk0, trace).
                  Suc max_retries - retry_count)") auto

declare download_videos_from.simps [simp del]

definition download_videos ::
  "(nat \<Rightarrow> attempt_env) \<Rightarrow> (int \<Rightarrow> string) \<Rightarrow> string \<Rightarrow> path \<Rightarrow> bool \<Rightarrow> disk
     \<Rightarrow> bool option outcome \<times> event list \<times> disk" where
  "download_videos envs strftime base_url download_dir headless0 disk0 =
     download_videos_from envs strftime base_url download_dir
       \<lparr>headless = headless0, playwright = None, browser = None, browser_context = None,
        page = None\<rparr> 0 disk0 []"

text \<open>
  \<open>main\<close> exits with 0 when \<open>download_videos\<close> returns a true value and with 1 otherwise;
  an exception that leaves \<open>download_videos\<close> ends the interpreter with status 1.
\<close>

definition exit_code :: "bool option outcome \<Rightarrow> nat" where
  "exit_code success =
     (case success of
        Returns (Some True) \<Rightarrow> 0
      | Returns _ \<Rightarrow> 1
      | Raises \<Rightarrow> 1)"

subsection \<open>Scenarios of the run loop\<close>

text \<open>
  The session opens: every step of \<open>setup_browser\<close> returns. The teardown is clean: every
  close returns.
\<close>

definition session_opens :: "attempt_env \<Rightarrow> bool" where
  "session_opens env =
     (start_playwright env = Returns () \<and> launch env True = Returns ()
      \<and> launch env False = Returns () \<and> new_context env = Returns ()
      \<and> new_page env = Returns ())"

definition closes_cleanly :: "attempt_env \<Rightarrow> bool" where
  "closes_cleanly env =
     (page_close env = Returns () \<and> context_close env = Returns ()
      \<and> browser_close env = Returns () \<and> playwright_stop env = Returns ())"

text \<open>A pass in which the login is reached and fails, and nothing else goes wrong.\<close>

definition login_fails :: "attempt_env \<Rightarrow> string \<Rightarrow> bool" where
  "login_fails env base_url =
     (session_opens env \<and> page_goto env (base_url @ ''/login'') = Returns ()
      \<and> \<not> login env \<and> closes_cleanly env)"

text \<open>A pass in which login and filters succeed, up to the call of \<open>get_video_links\<close>.\<close>

definition reaches_listing :: "attempt_env \<Rightarrow> (int \<Rightarrow> string) \<Rightarrow> string \<Rightarrow> bool" where
  "reaches_listing env strftime base_url =
     (session_opens env \<and> page_goto env (base_url @ ''/login'') = Returns ()
      \<and> login env \<and> page_goto env (base_url @ ''/videos'') = Returns ()
      \<and> fst (select_filters (filters env) strftime (system_date env))
      \<and> closes_cleanly env)"

text \<open>
  The session after the first lines of the \<open>try\<close> block (the switch to visible mode on
  the last retry), and after a setup in which every step returned.
\<close>

definition escalate :: "session \<Rightarrow> nat \<Rightarrow> session" where
  "escalate s retry_count =
     (if retry_count > 0 \<and> headless s \<and> retry_count = max_retries
      then s\<lparr>headless := False\<rparr> else s)"

definition opened :: "session \<Rightarrow> nat \<Rightarrow> session" where
  "opened s n = (escalate s n)\<lparr>playwright := Some n, browser := Some n,
                                browser_context := Some n, page := Some n\<rparr>"

text \<open>The closes that \<open>close_browser\<close> has to make on a session, in its order.\<close>

definition due_closes :: "session \<Rightarrow> event list" where
  "due_closes s =
     (case page s of None \<Rightarrow> [] | Some h \<Rightarrow> [Close_page h])
     @ (case browser_context s of None \<Rightarrow> [] | Some h \<Rightarrow> [Close_context h])
     @ (case browser s of None \<Rightarrow> [] | Some h \<Rightarrow> [Close_browser h])
     @ (case playwright s of None \<Rightarrow> [] | Some h \<Rightarrow> [Stop_playwright h])"

text \<open>The same closes, each with the answer the outside world gives to it.\<close>

definition closes_due :: "attempt_env \<Rightarrow> session \<Rightarrow> (event \<times> unit outcome) list" where
  "closes_due env s =
     (case page s of None \<Rightarrow> [] | Some h \<Rightarrow> [(Close_page h, page_close env)])
     @ (case browser_context s of None \<Rightarrow> [] | Some h \<Rightarrow> [(Close_context h, context_close env)])
     @ (case browser s of None \<Rightarrow> [] | Some h \<Rightarrow> [(Close_browser h, browser_close env)])
     @ (case playwright s of None \<Rightarrow> [] | Some h \<Rightarrow> [(Stop_playwright h, playwright_stop env)])"

definition close_returns :: "event \<times> unit outcome \<Rightarrow> bool" where
  "close_returns c = (snd c = Returns ())"

text \<open>The events that the \<open>try\<close> block of a pass may record.\<close>

definition is_pass_event :: "event \<Rightarrow> bool" where
  "is_pass_event e =
     (case e of
        Launch h \<Rightarrow> True
      | Login_returned b \<Rightarrow> True
      | Filters_returned b \<Rightarrow> True
      | Listed n \<Rightarrow> True
      | Downloaded n of_total \<Rightarrow> True
      | _ \<Rightarrow> False)"

text \<open>
  The session a run starts with, the session that the setup of pass \<open>n\<close> leaves when the
  pass is entered with session \<open>s\<close>, and the session at the teardown of pass \<open>k\<close> of a run.
\<close>

definition initial_session :: "bool \<Rightarrow> session" where
  "initial_session headless0 =
     \<lparr>headless = headless0, playwright = None, browser = None, browser_context = None,
      page = None\<rparr>"

definition pass_session :: "attempt_env \<Rightarrow> session \<Rightarrow> nat \<Rightarrow> session" where
  "pass_session env s n = fst (snd (setup_browser env (escalate s n) n))"

fun session_at_teardown :: "(nat \<Rightarrow> attempt_env) \<Rightarrow> bool \<Rightarrow> nat \<Rightarrow> session" where
  "session_at_teardown envs headless0 0 = pass_session (envs 0) (initial_session headless0) 0"
| "session_at_teardown envs headless0 (Suc k) =
     pass_session (envs (Suc k)) (session_at_teardown envs headless0 k) (Suc k)"

text \<open>The events of a session opened in pass \<open>n\<close> and closed without a failure.\<close>

definition full_teardown :: "nat \<Rightarrow> event list" where
  "full_teardown n = [Teardown n, Close_page n, Close_context n, Close_browser n, Stop_playwright n]"

section \<open>Theorems\<close>

subsection \<open>The date key\<close>

lemma weekday_range: "0 \<le> weekday d \<and> weekday d < 7"
  by (simp add: weekday_def)

text \<open>
  C2. For every value of today from 0001-01-08 on (the clock of a running system is far
  later), the date computed by \<open>get_previous_wednesday\<close> exists, is a Wednesday, is not
  later than today (it is in fact one to seven days earlier), and is exactly seven days
  earlier when today is itself a Wednesday; the returned key is that date formatted.
\<close>

theorem get_previous_wednesday_is_wednesday:
  assumes "8 \<le> today" and "today \<le> MAXORDINAL"
  shows "\<exists>d. prev_wednesday_date today = Returns d
            \<and> get_previous_wednesday strftime today = Returns (strftime d)
            \<and> weekday d = 2
            \<and> d \<le> today \<and> d < today \<and> today - 7 \<le> d
            \<and> (weekday today = 2 \<longrightarrow> d = today - 7)"
proof -
  define k where "k = (weekday today - 2) mod 7"
  have k_range: "0 \<le> k" "k < 7"
    by (simp_all add: k_def)
  show ?thesis
  proof (cases "k = 0")
    case True
    then have wd: "weekday today = 2"
      using weekday_range [of today] unfolding k_def by presburger
    have "prev_wednesday_date today = Returns (today - 7)"
      using True assms by (simp add: prev_wednesday_date_def Let_def k_def [symmetric] sub_days_def)
    moreover have "weekday (today - 7) = 2"
      using wd unfolding weekday_def by presburger
    ultimately show ?thesis
      by (simp add: get_previous_wednesday_def)
  next
    case False
    then have pos: "0 < k"
      using k_range by simp
    have notwed: "weekday today \<noteq> 2"
      using False unfolding k_def by auto
    have "prev_wednesday_date today = Returns (today - k)"
      using False assms k_range pos
      by (simp add: prev_wednesday_date_def Let_def k_def [symmetric] sub_days_def)
    moreover have "weekday (today - k) = 2"
      unfolding weekday_def k_def by presburger
    ultimately show ?thesis
      using pos k_range notwed by (simp add: get_previous_wednesday_def)
  qed
qed

theorem get_previous_wednesday_is_wednesday_witness:
  "(8::int) \<le> 739560 \<and> 739560 \<le> MAXORDINAL
   \<and> weekday 739560 = 2
   \<and> prev_wednesday_date 739560 = Returns 739553
   \<and> get_previous_wednesday (\<lambda>d. ''key'') 739560 = Returns ''key''
   \<and> weekday 739553 = 2"
  using get_previous_wednesday_is_wednesday [of 739560, where strftime = "\<lambda>d. ''key''"]
  by (auto simp add: MAXORDINAL_def weekday_def)

subsection \<open>The safe filename\<close>

lemma dropWhile_none: "\<forall>c\<in>set s. \<not> P c \<Longrightarrow> dropWhile P s = s"
  by (cases s) auto

lemma strip_id: "\<forall>c\<in>set s. \<not> isspace c \<Longrightarrow> strip s = s"
  by (simp add: strip_def dropWhile_none)

lemma sub_runs_id: "\<forall>c\<in>set s. \<not> is_sep c \<Longrightarrow> sub_runs s = s"
  by (induction s) auto

lemma set_sub_runs: "c \<in> set (sub_runs s) \<Longrightarrow> c = CHR ''_'' \<or> (c \<in> set s \<and> \<not> is_sep c)"
proof (induction s rule: sub_runs.induct)
  case 1
  then show ?case by simp
next
  case (2 d ds)
  show ?case
  proof (cases "is_sep d")
    case True
    with 2 have "c = CHR ''_'' \<or> c \<in> set (sub_runs (dropWhile is_sep ds))" by simp
    with 2 True show ?thesis by (auto dest: set_dropWhileD)
  next
    case False
    with 2 show ?thesis by auto
  qed
qed

lemma set_strip: "c \<in> set (strip s) \<Longrightarrow> c \<in> set s"
  by (auto simp add: strip_def dest!: set_dropWhileD)

lemma underscore_facts: "is_word CHR ''_''" "\<not> is_sep CHR ''_''" "\<not> isspace CHR ''_''"
  by (simp_all add: is_word_def is_sep_def isspace_def)

lemma safe_title_from:
  assumes "c \<in> set (safe_title t)"
  shows "c = CHR ''_'' \<or> (c \<in> set t \<and> kept_char c \<and> \<not> is_sep c)"
proof -
  from assms have "c = CHR ''_'' \<or> (c \<in> set (strip (filter kept_char t)) \<and> \<not> is_sep c)"
    unfolding safe_title_def by (rule set_sub_runs)
  then show ?thesis
    by (auto dest: set_strip)
qed

lemma safe_title_chars:
  assumes "c \<in> set (safe_title t)"
  shows "is_word c \<and> \<not> is_sep c"
  using safe_title_from [OF assms] underscore_facts
  by (auto simp add: kept_char_def is_sep_def)

lemma safe_title_fixed:
  assumes "\<forall>c\<in>set s. is_word c \<and> \<not> is_sep c"
  shows "safe_title s = s"
proof -
  have "filter kept_char s = s"
    using assms by (auto simp add: kept_char_def intro: filter_True)
  moreover have "strip s = s"
    using assms by (intro strip_id) (auto simp add: is_sep_def)
  moreover have "sub_runs s = s"
    using assms by (intro sub_runs_id) auto
  ultimately show ?thesis by (simp add: safe_title_def)
qed

lemma ascii_word_char: "is_word c \<Longrightarrow> is_ascii c \<Longrightarrow> ascii_word c"
  by (auto simp add: is_word_def isalnum_def is_ascii_def ascii_word_def Let_def)

lemma ascii_underscore: "ascii_word CHR ''_''"
  by (simp add: ascii_word_def)

text \<open>
  C3, as amended. The sanitization of a title (the two substitutions and the strip, before
  the extension is appended) is idempotent; the file name is the sanitized title followed
  by \<open>.mp4\<close>; every character of the sanitized title is a word character in the sense
  of Python's Unicode-aware \<open>\w\<close> (a letter or digit of any script, or an underscore); and
  when the title is ASCII, every character of the sanitized title is in \<open>[A-Za-z0-9_]\<close>.
\<close>

theorem safe_title_idempotent_word_chars:
  "safe_title (safe_title t) = safe_title t
   \<and> filename t = safe_title t @ ''.mp4''
   \<and> list_all is_word (safe_title t)
   \<and> (list_all is_ascii t \<longrightarrow> list_all ascii_word (safe_title t))"
proof (intro conjI impI)
  show "safe_title (safe_title t) = safe_title t"
    by (rule safe_title_fixed) (auto dest: safe_title_chars)
  show "filename t = safe_title t @ ''.mp4''"
    by (simp add: filename_def)
  show "list_all is_word (safe_title t)"
    unfolding list_all_iff by (auto dest: safe_title_chars)
  assume ascii: "list_all is_ascii t"
  show "list_all ascii_word (safe_title t)"
    unfolding list_all_iff
  proof
    fix c assume c: "c \<in> set (safe_title t)"
    from safe_title_from [OF c] show "ascii_word c"
    proof
      assume "c = CHR ''_''"
      then show ?thesis by (simp add: ascii_underscore)
    next
      assume "c \<in> set t \<and> kept_char c \<and> \<not> is_sep c"
      with ascii have "is_ascii c" by (simp add: list_all_iff)
      with c show ?thesis by (auto dest: safe_title_chars intro: ascii_word_char)
    qed
  qed
qed

theorem safe_title_idempotent_word_chars_witness:
  "list_all is_ascii ''14/06/2025 11h00''
   \<and> safe_title ''14/06/2025 11h00'' = ''14062025_11h00''
   \<and> safe_title ''14062025_11h00'' = ''14062025_11h00''
   \<and> list_all ascii_word (safe_title ''14/06/2025 11h00'')"
proof -
  have e: "safe_title ''14/06/2025 11h00'' = ''14062025_11h00''"
    by code_simp
  have a: "list_all is_ascii ''14/06/2025 11h00''"
    by code_simp
  show ?thesis
    using safe_title_idempotent_word_chars [of "''14/06/2025 11h00''"] a e by simp
qed

text \<open>
  C3 as stated fails on a title with an accented letter: U+00E9 is a word character for
  \<open>\w\<close>, so it survives the sanitization, and it is not in \<open>[A-Za-z0-9_]\<close>.
\<close>

theorem safe_title_non_ascii_counterexample:
  "safe_title (CHR ''S'' # CHR 0xE9 # ''ance 12h00'') = CHR ''S'' # CHR 0xE9 # ''ance_12h00''
   \<and> filename (CHR ''S'' # CHR 0xE9 # ''ance 12h00'') = CHR ''S'' # CHR 0xE9 # ''ance_12h00.mp4''
   \<and> \<not> list_all ascii_word (safe_title (CHR ''S'' # CHR 0xE9 # ''ance 12h00''))"
  by code_simp

subsection \<open>The time filter\<close>

lemma not_decimal_h: "\<not> isdecimal CHR ''h''"
  by (simp add: isdecimal_def)

lemma length_one: "length xs = Suc 0 \<longleftrightarrow> (\<exists>a. xs = [a])"
  by (cases xs) auto

lemma length_two: "length xs = 2 \<longleftrightarrow> (\<exists>a b. xs = [a, b])"
  by (cases xs; cases "tl xs") auto

lemma match_here_sound: "match_here s = Some (hs, ms) \<Longrightarrow> time_pattern_at s 0 hs ms"
  by (induction s rule: match_here.induct)
     (auto simp add: time_pattern_at_def split: if_splits)

lemma match_here_complete:
  assumes "time_pattern_at s 0 hs ms"
  shows "match_here s = Some (hs, ms)"
proof -
  from assms obtain rest where s: "s = hs @ ''h'' @ ms @ rest"
    and hs: "length hs = 1 \<or> length hs = 2" "list_all isdecimal hs"
    and ms: "length ms = 2" "list_all isdecimal ms"
    by (auto simp add: time_pattern_at_def)
  from ms obtain d e where ms_eq: "ms = [d, e]" "isdecimal d" "isdecimal e"
    by (auto simp add: length_two)
  from hs(1) show ?thesis
  proof
    assume "length hs = 1"
    with hs(2) obtain a where "hs = [a]" "isdecimal a"
      by (auto simp add: length_one)
    with s ms_eq show ?thesis
      by (cases rest) (auto simp add: not_decimal_h)
  next
    assume "length hs = 2"
    with hs(2) obtain a b where "hs = [a, b]" "isdecimal a" "isdecimal b"
      by (auto simp add: length_two)
    with s ms_eq show ?thesis
      by auto
  qed
qed

lemma match_here_at: "match_here (drop i t) = Some (hs, ms) \<longleftrightarrow> time_pattern_at t i hs ms"
proof -
  have "time_pattern_at t i hs ms \<longleftrightarrow> time_pattern_at (drop i t) 0 hs ms"
    by (simp add: time_pattern_at_def)
  then show ?thesis
    using match_here_sound match_here_complete by blast
qed

lemma no_match_at: "match_here (drop i t) = None \<longleftrightarrow> (\<forall>hs ms. \<not> time_pattern_at t i hs ms)"
proof (cases "match_here (drop i t)")
  case None
  then show ?thesis using match_here_at [of i t] by simp
next
  case (Some g)
  then show ?thesis using match_here_at [of i t "fst g" "snd g"] by auto
qed

lemma re_search_None: "re_search t = None \<longleftrightarrow> (\<forall>i. match_here (drop i t) = None)"
proof (induction t)
  case Nil
  then show ?case by simp
next
  case (Cons c cs)
  show ?case
  proof (cases "match_here (c # cs)")
    case None
    have "(\<forall>i. match_here (drop i (c # cs)) = None) \<longleftrightarrow> (\<forall>i. match_here (drop i cs) = None)"
    proof
      assume h: "\<forall>i. match_here (drop i (c # cs)) = None"
      show "\<forall>i. match_here (drop i cs) = None"
      proof
        fix i
        from h have "match_here (drop (Suc i) (c # cs)) = None" by blast
        then show "match_here (drop i cs) = None" by simp
      qed
    next
      assume h: "\<forall>i. match_here (drop i cs) = None"
      show "\<forall>i. match_here (drop i (c # cs)) = None"
      proof
        fix i
        show "match_here (drop i (c # cs)) = None"
          using None h by (cases i) auto
      qed
    qed
    with None Cons show ?thesis by simp
  next
    case (Some g)
    then have "\<not> (\<forall>i. match_here (drop i (c # cs)) = None)"
      by (auto intro: exI [of _ 0])
    with Some show ?thesis by simp
  qed
qed

lemma re_search_Some:
  "re_search t = Some g \<longleftrightarrow>
     (\<exists>i. match_here (drop i t) = Some g \<and> (\<forall>j<i. match_here (drop j t) = None))"
proof (induction t)
  case Nil
  then show ?case by simp
next
  case (Cons c cs)
  show ?case
  proof (cases "match_here (c # cs)")
    case None
    have "(\<exists>i. match_here (drop i (c # cs)) = Some g \<and> (\<forall>j<i. match_here (drop j (c # cs)) = None))
          \<longleftrightarrow> (\<exists>i. match_here (drop i cs) = Some g \<and> (\<forall>j<i. match_here (drop j cs) = None))"
      (is "?L \<longleftrightarrow> ?R")
    proof
      assume ?L
      then obtain i where i: "match_here (drop i (c # cs)) = Some g"
        "\<forall>j<i. match_here (drop j (c # cs)) = None" by blast
      from i(1) None obtain k where k: "i = Suc k" by (cases i) auto
      have "\<forall>j<k. match_here (drop j cs) = None"
      proof (intro allI impI)
        fix j assume "j < k"
        then have "Suc j < i" using k by simp
        with i(2) have "match_here (drop (Suc j) (c # cs)) = None" by blast
        then show "match_here (drop j cs) = None" by simp
      qed
      with i(1) k show ?R by auto
    next
      assume ?R
      then obtain i where i: "match_here (drop i cs) = Some g"
        "\<forall>j<i. match_here (drop j cs) = None" by blast
      have "\<forall>j<Suc i. match_here (drop j (c # cs)) = None"
      proof (intro allI impI)
        fix j assume "j < Suc i"
        then show "match_here (drop j (c # cs)) = None"
          using None i(2) by (cases j) auto
      qed
      with i(1) show ?L by (intro exI [of _ "Suc i"]) simp
    qed
    with None Cons show ?thesis by simp
  next
    case (Some g')
    have "(\<exists>i. match_here (drop i (c # cs)) = Some g \<and> (\<forall>j<i. match_here (drop j (c # cs)) = None))
          \<longleftrightarrow> g' = g" (is "?L \<longleftrightarrow> _")
    proof
      assume ?L
      then obtain i where i: "match_here (drop i (c # cs)) = Some g"
        "\<forall>j<i. match_here (drop j (c # cs)) = None" by blast
      have "i = 0"
      proof (rule ccontr)
        assume "i \<noteq> 0"
        then have "0 < i" by simp
        with i(2) have "match_here (drop 0 (c # cs)) = None" by blast
        with Some show False by simp
      qed
      with i(1) Some show "g' = g" by simp
    next
      assume "g' = g"
      with Some show ?L by (intro exI [of _ 0]) simp
    qed
    with Some show ?thesis by simp
  qed
qed

lemma re_search_first: "re_search t = Some (hs, ms) \<longleftrightarrow> first_time_pattern t hs ms"
  unfolding re_search_Some first_time_pattern_def
  by (simp add: match_here_at no_match_at)

lemma re_search_has: "re_search t = None \<longleftrightarrow> \<not> has_time_pattern t"
  unfolding re_search_None has_time_pattern_def
  by (simp add: no_match_at)

lemma filter_one_keeps: "fst (filter_one v) \<longleftrightarrow> first_match_keep (title v)"
proof (cases "re_search (title v)")
  case None
  then show ?thesis
    by (simp add: filter_one_def first_match_keep_def re_search_has [symmetric])
next
  case (Some g)
  obtain g1 g2 where g: "g = (g1, g2)" by (cases g)
  have first: "\<And>hs ms. first_time_pattern (title v) hs ms \<longleftrightarrow> hs = g1 \<and> ms = g2"
    using Some g by (auto simp add: re_search_first [symmetric])
  have "has_time_pattern (title v)"
    using Some re_search_has [of "title v"] by simp
  then show ?thesis
    using Some g first
    by (simp add: filter_one_def first_match_keep_def in_window_def Let_def)
qed

lemma filter_one_warns:
  "snd (filter_one v) = (WARNING, Could_not_determine_time t)
     \<longleftrightarrow> title v = t \<and> \<not> has_time_pattern (title v)"
  by (cases "re_search (title v)")
     (auto simp add: filter_one_def re_search_has [symmetric] Let_def split: prod.splits)

lemma filter_by_time_fst: "fst (filter_by_time vs) = filter (\<lambda>v. fst (filter_one v)) vs"
  by (induction vs) (auto split: prod.splits)

lemma filter_by_time_snd: "snd (filter_by_time vs) = map (\<lambda>v. snd (filter_one v)) vs"
  by (induction vs) (auto split: prod.splits)

text \<open>
  C4, as amended. The time filter keeps exactly the videos whose title either holds no
  time pattern at all, or whose leftmost time pattern (one or two digits, h, two digits)
  has hour times 100 plus minute in 1200 to 1330, both included; later patterns of the
  title are not looked at. A warning is logged for a title exactly when some listed video
  bears it and it holds no time pattern.
\<close>

theorem time_filter_first_match:
  "fst (get_video_links (Returns vs)) = filter (\<lambda>v. first_match_keep (title v)) vs
   \<and> ((WARNING, Could_not_determine_time t) \<in> set (snd (get_video_links (Returns vs)))
        \<longleftrightarrow> (\<exists>v\<in>set vs. title v = t \<and> \<not> has_time_pattern t))"
proof
  show "fst (get_video_links (Returns vs)) = filter (\<lambda>v. first_match_keep (title v)) vs"
    using filter_by_time_fst [of vs]
    by (auto simp add: get_video_links_def filter_one_keeps split: prod.splits)
  have lg: "snd (get_video_links (Returns vs))
          = map (\<lambda>v. snd (filter_one v)) vs
            @ [(INFO, Found_total (length vs) (length (fst (filter_by_time vs))))]"
    using filter_by_time_snd [of vs]
    by (auto simp add: get_video_links_def split: prod.splits)
  have "(WARNING, Could_not_determine_time t) \<in> set (snd (get_video_links (Returns vs)))
        \<longleftrightarrow> (\<exists>v\<in>set vs. snd (filter_one v) = (WARNING, Could_not_determine_time t))"
    unfolding lg by (force simp add: image_iff)
  also have "\<dots> \<longleftrightarrow> (\<exists>v\<in>set vs. title v = t \<and> \<not> has_time_pattern (title v))"
    by (simp only: filter_one_warns)
  also have "\<dots> \<longleftrightarrow> (\<exists>v\<in>set vs. title v = t \<and> \<not> has_time_pattern t)"
    by auto
  finally show "(WARNING, Could_not_determine_time t) \<in> set (snd (get_video_links (Returns vs)))
        \<longleftrightarrow> (\<exists>v\<in>set vs. title v = t \<and> \<not> has_time_pattern t)" .
qed

theorem time_filter_first_match_witness:
  "filter (\<lambda>v. first_match_keep (title v))
     [\<lparr>title = ''14/06/2025 11h59'', downloadUrl = ''/download?path=a.mp4'',
       directUrl = Some ''a.mp4'', videoSrc = None, index = 0\<rparr>,
      \<lparr>title = ''14/06/2025 12h00'', downloadUrl = ''/download?path=b.mp4'',
       directUrl = Some ''b.mp4'', videoSrc = None, index = 1\<rparr>,
      \<lparr>title = ''14/06/2025 13h30'', downloadUrl = ''/download?path=c.mp4'',
       directUrl = Some ''c.mp4'', videoSrc = None, index = 2\<rparr>,
      \<lparr>title = ''14/06/2025 13h31'', downloadUrl = ''/download?path=d.mp4'',
       directUrl = Some ''d.mp4'', videoSrc = None, index = 3\<rparr>,
      \<lparr>title = ''Rucker Park'', downloadUrl = ''/download?path=e.mp4'',
       directUrl = Some ''e.mp4'', videoSrc = None, index = 4\<rparr>]
   = [\<lparr>title = ''14/06/2025 12h00'', downloadUrl = ''/download?path=b.mp4'',
       directUrl = Some ''b.mp4'', videoSrc = None, index = 1\<rparr>,
      \<lparr>title = ''14/06/2025 13h30'', downloadUrl = ''/download?path=c.mp4'',
       directUrl = Some ''c.mp4'', videoSrc = None, index = 2\<rparr>,
      \<lparr>title = ''Rucker Park'', downloadUrl = ''/download?path=e.mp4'',
       directUrl = Some ''e.mp4'', videoSrc = None, index = 4\<rparr>]
   \<and> (\<exists>v\<in>set [\<lparr>title = ''Rucker Park'', downloadUrl = ''/download?path=e.mp4'',
                   directUrl = Some ''e.mp4'', videoSrc = None, index = 4\<rparr>].
          title v = ''Rucker Park'' \<and> \<not> has_time_pattern ''Rucker Park'')"
proof -
  have run: "fst (get_video_links (Returns
     [\<lparr>title = ''14/06/2025 11h59'', downloadUrl = ''/download?path=a.mp4'',
       directUrl = Some ''a.mp4'', videoSrc = None, index = 0\<rparr>,
      \<lparr>title = ''14/06/2025 12h00'', downloadUrl = ''/download?path=b.mp4'',
       directUrl = Some ''b.mp4'', videoSrc = None, index = 1\<rparr>,
      \<lparr>title = ''14/06/2025 13h30'', downloadUrl = ''/download?path=c.mp4'',
       directUrl = Some ''c.mp4'', videoSrc = None, index = 2\<rparr>,
      \<lparr>title = ''14/06/2025 13h31'', downloadUrl = ''/download?path=d.mp4'',
       directUrl = Some ''d.mp4'', videoSrc = None, index = 3\<rparr>,
      \<lparr>title = ''Rucker Park'', downloadUrl = ''/download?path=e.mp4'',
       directUrl = Some ''e.mp4'', videoSrc = None, index = 4\<rparr>]))
   = [\<lparr>title = ''14/06/2025 12h00'', downloadUrl = ''/download?path=b.mp4'',
       directUrl = Some ''b.mp4'', videoSrc = None, index = 1\<rparr>,
      \<lparr>title = ''14/06/2025 13h30'', downloadUrl = ''/download?path=c.mp4'',
       directUrl = Some ''c.mp4'', videoSrc = None, index = 2\<rparr>,
      \<lparr>title = ''Rucker Park'', downloadUrl = ''/download?path=e.mp4'',
       directUrl = Some ''e.mp4'', videoSrc = None, index = 4\<rparr>]"
    by code_simp
  have warn: "(WARNING, Could_not_determine_time ''Rucker Park'')
     \<in> set (snd (get_video_links (Returns
          [\<lparr>title = ''Rucker Park'', downloadUrl = ''/download?path=e.mp4'',
            directUrl = Some ''e.mp4'', videoSrc = None, index = 4\<rparr>])))"
    by code_simp
  show ?thesis
    using time_filter_first_match [of
     "[\<lparr>title = ''14/06/2025 11h59'', downloadUrl = ''/download?path=a.mp4'',
       directUrl = Some ''a.mp4'', videoSrc = None, index = 0\<rparr>,
      \<lparr>title = ''14/06/2025 12h00'', downloadUrl = ''/download?path=b.mp4'',
       directUrl = Some ''b.mp4'', videoSrc = None, index = 1\<rparr>,
      \<lparr>title = ''14/06/2025 13h30'', downloadUrl = ''/download?path=c.mp4'',
       directUrl = Some ''c.mp4'', videoSrc = None, index = 2\<rparr>,
      \<lparr>title = ''14/06/2025 13h31'', downloadUrl = ''/download?path=d.mp4'',
       directUrl = Some ''d.mp4'', videoSrc = None, index = 3\<rparr>,
      \<lparr>title = ''Rucker Park'', downloadUrl = ''/download?path=e.mp4'',
       directUrl = Some ''e.mp4'', videoSrc = None, index = 4\<rparr>]" "''Rucker Park''"]
      time_filter_first_match [of
     "[\<lparr>title = ''Rucker Park'', downloadUrl = ''/download?path=e.mp4'',
       directUrl = Some ''e.mp4'', videoSrc = None, index = 4\<rparr>]" "''Rucker Park''"]
      run warn
    by simp
qed

text \<open>
  C4 as stated fails on a title with two times: \<open>11h00 12h30\<close> contains the pattern
  \<open>12h30\<close>, which is in the window, yet the video is dropped, because \<open>re.search\<close>
  returns the first match, \<open>11h00\<close>.
\<close>

theorem time_filter_later_match_counterexample:
  "time_pattern_at ''11h00 12h30'' 6 ''12'' ''30''
   \<and> in_window ''12'' ''30''
   \<and> claimed_keep ''11h00 12h30''
   \<and> fst (get_video_links (Returns
        [\<lparr>title = ''11h00 12h30'', downloadUrl = ''/download?path=a.mp4'',
          directUrl = Some ''a.mp4'', videoSrc = None, index = 0\<rparr>])) = []"
proof -
  have p: "time_pattern_at ''11h00 12h30'' 6 ''12'' ''30''"
    by (simp add: time_pattern_at_def isdecimal_def)
  have w: "in_window ''12'' ''30''"
    by (simp add: in_window_def py_int_def)
  have c: "claimed_keep ''11h00 12h30''"
    unfolding claimed_keep_def using p w by blast
  have r: "fst (get_video_links (Returns
        [\<lparr>title = ''11h00 12h30'', downloadUrl = ''/download?path=a.mp4'',
          directUrl = Some ''a.mp4'', videoSrc = None, index = 0\<rparr>])) = []"
    by code_simp
  from p w c r show ?thesis by simp
qed

subsection \<open>The fallback chain\<close>

lemma browser_download_fst:
  "fst (browser_download env d (downloadUrl v) p) = browser_succeeds env p v"
  by (auto simp add: browser_download_def browser_succeeds_def split: outcome.splits)

lemma click_trigger_eq: "click_trigger env b (index v) = click_succeeds env b v"
  by (auto simp add: click_trigger_def click_succeeds_def split: outcome.splits)

lemma direct_rejected_fails:
  "direct_rejected env v \<Longrightarrow> has_direct_url v \<and> \<not> direct_succeeds env d p v"
  by (auto simp add: direct_rejected_def has_direct_url_def direct_succeeds_def truthy_def
        direct_fetch_def raise_for_status_def
      split: option.splits outcome.splits http_response.splits)

lemma direct_succeeds_has_url: "direct_succeeds env d p v \<Longrightarrow> has_direct_url v"
  by (auto simp add: has_direct_url_def direct_succeeds_def truthy_def split: option.splits)

lemma download_video_mkdir_raises:
  assumes "mkdir env (download_dir @ ''/'' @ date_str) = Raises"
  shows "download_video env base_url download_dir disk0 v date_str
           = \<lparr>result = False, attempts = [], files = disk0\<rparr>"
  using assms by (simp add: download_video_def)

lemma download_video_unfold:
  assumes "mkdir env (download_dir @ ''/'' @ date_str) = Returns ()"
  shows "download_video env base_url download_dir disk0 v date_str
     = (let p = download_path_of download_dir date_str (title v);
            d = direct_succeeds env disk0 p v;
            disk1 = (case py_or (directUrl v) (videoSrc v) of
                       None \<Rightarrow> disk0
                     | Some url \<Rightarrow> if url \<noteq> [] then snd (direct_fetch env disk0 url p) else disk0);
            tried = (if has_direct_url v then [Direct_fetch] else [])
        in if d then \<lparr>result = True, attempts = tried, files = disk1\<rparr>
           else if browser_succeeds env p v
           then \<lparr>result = True, attempts = tried @ [Browser_download],
                 files = snd (browser_download env disk1 (downloadUrl v) p)\<rparr>
           else \<lparr>result = click_succeeds env base_url v,
                 attempts = tried @ [Browser_download, Click_trigger],
                 files = snd (browser_download env disk1 (downloadUrl v) p)\<rparr>)"
proof (cases "py_or (directUrl v) (videoSrc v)")
  case None
  with assms show ?thesis
    by (simp add: download_video_def Let_def case_prod_beta browser_download_fst
        click_trigger_eq has_direct_url_def direct_succeeds_def truthy_def)
next
  case (Some url)
  with assms show ?thesis
    by (simp add: download_video_def Let_def case_prod_beta browser_download_fst
        click_trigger_eq has_direct_url_def direct_succeeds_def truthy_def)
qed

lemma download_video_attempts:
  assumes "mkdir env (download_dir @ ''/'' @ date_str) = Returns ()"
  shows "attempts (download_video env base_url download_dir disk0 v date_str)
           = (if has_direct_url v then [Direct_fetch] else [])
             @ (if direct_succeeds env disk0 (download_path_of download_dir date_str (title v)) v
                then []
                else Browser_download
                     # (if browser_succeeds env (download_path_of download_dir date_str (title v)) v
                        then [] else [Click_trigger]))"
  by (simp add: download_video_unfold [OF assms] Let_def)

lemma download_video_result:
  assumes "mkdir env (download_dir @ ''/'' @ date_str) = Returns ()"
  shows "result (download_video env base_url download_dir disk0 v date_str)
           \<longleftrightarrow> direct_succeeds env disk0 (download_path_of download_dir date_str (title v)) v
               \<or> browser_succeeds env (download_path_of download_dir date_str (title v)) v
               \<or> click_succeeds env base_url v"
  by (simp add: download_video_unfold [OF assms] Let_def)

text \<open>
  C1, as amended. When creating the dated folder raises, \<open>download_video\<close> returns false
  without entering any method. Otherwise the methods are entered in strict priority order
  and the chain stops at the first success: the direct fetch first, exactly when the
  record carries a non-empty direct URL or video source; the browser download next,
  exactly when the direct fetch did not succeed (in particular when the request raised or
  the status was an HTTP error); the click trigger last, exactly when the browser download
  did not succeed either. The call returns true exactly when one of the methods entered
  succeeded, so it returns false only if the browser download and the click trigger were
  both entered and every method entered raised or returned false.
\<close>

theorem download_video_fallback_order:
  fixes env base_url download_dir disk0 v date_str
  defines "r \<equiv> download_video env base_url download_dir disk0 v date_str"
    and "p \<equiv> download_path_of download_dir date_str (title v)"
  shows "(mkdir env (download_dir @ ''/'' @ date_str) = Raises \<longrightarrow>
            \<not> result r \<and> attempts r = [])
       \<and> (mkdir env (download_dir @ ''/'' @ date_str) = Returns () \<longrightarrow>
            attempts r
              = (if has_direct_url v then [Direct_fetch] else [])
                @ (if direct_succeeds env disk0 p v then []
                   else Browser_download # (if browser_succeeds env p v then [] else [Click_trigger]))
            \<and> (result r \<longleftrightarrow>
                 direct_succeeds env disk0 p v \<or> browser_succeeds env p v
                 \<or> click_succeeds env base_url v)
            \<and> (direct_rejected env v \<longrightarrow> take 2 (attempts r) = [Direct_fetch, Browser_download])
            \<and> (\<not> result r \<longrightarrow>
                 attempts r
                   = (if has_direct_url v then [Direct_fetch] else [])
                     @ [Browser_download, Click_trigger]
                 \<and> \<not> direct_succeeds env disk0 p v \<and> \<not> browser_succeeds env p v
                 \<and> \<not> click_succeeds env base_url v))"
proof (intro conjI impI)
  assume "mkdir env (download_dir @ ''/'' @ date_str) = Raises"
  then have "r = \<lparr>result = False, attempts = [], files = disk0\<rparr>"
    unfolding r_def by (rule download_video_mkdir_raises)
  then show "\<not> result r" and "attempts r = []" by simp_all
next
  assume mk: "mkdir env (download_dir @ ''/'' @ date_str) = Returns ()"
  show att: "attempts r
              = (if has_direct_url v then [Direct_fetch] else [])
                @ (if direct_succeeds env disk0 p v then []
                   else Browser_download # (if browser_succeeds env p v then [] else [Click_trigger]))"
    unfolding r_def p_def by (rule download_video_attempts [OF mk])
  show res: "result r \<longleftrightarrow>
                 direct_succeeds env disk0 p v \<or> browser_succeeds env p v
                 \<or> click_succeeds env base_url v"
    unfolding r_def p_def by (rule download_video_result [OF mk])
  {
    assume "direct_rejected env v"
    then have "has_direct_url v" "\<not> direct_succeeds env disk0 p v"
      using direct_rejected_fails by blast+
    then show "take 2 (attempts r) = [Direct_fetch, Browser_download]"
      by (simp add: att)
  }
  {
    assume nr: "\<not> result r"
    with res show "\<not> direct_succeeds env disk0 p v" and "\<not> browser_succeeds env p v"
      and "\<not> click_succeeds env base_url v" by simp_all
    then show "attempts r
                   = (if has_direct_url v then [Direct_fetch] else [])
                     @ [Browser_download, Click_trigger]"
      by (simp add: att)
  }
qed

theorem download_video_fallback_order_witness:
  "mkdir \<lparr>mkdir = (\<lambda>p. Returns ()),
          requests_get = (\<lambda>u. Returns (Response 404 [] True)),
          open_wb = (\<lambda>p. Returns ()),
          set_extra_http_headers = Returns (),
          expect_download = (\<lambda>u. Raises),
          save_as = (\<lambda>p. Returns ()),
          goto = (\<lambda>u. Returns ()),
          evaluate_click = (\<lambda>i. Returns False)\<rparr> (''./downloads'' @ ''/'' @ ''20251029'') = Returns ()
   \<and> direct_rejected
        \<lparr>mkdir = (\<lambda>p. Returns ()),
          requests_get = (\<lambda>u. Returns (Response 404 [] True)),
          open_wb = (\<lambda>p. Returns ()),
          set_extra_http_headers = Returns (),
          expect_download = (\<lambda>u. Raises),
          save_as = (\<lambda>p. Returns ()),
          goto = (\<lambda>u. Returns ()),
          evaluate_click = (\<lambda>i. Returns False)\<rparr>
        \<lparr>title = ''14/06/2025 12h00'', downloadUrl = ''/download?path=b.mp4'',
          directUrl = Some ''b.mp4'', videoSrc = None, index = 1\<rparr>
   \<and> \<not> result (download_video
        \<lparr>mkdir = (\<lambda>p. Returns ()),
          requests_get = (\<lambda>u. Returns (Response 404 [] True)),
          open_wb = (\<lambda>p. Returns ()),
          set_extra_http_headers = Returns (),
          expect_download = (\<lambda>u. Raises),
          save_as = (\<lambda>p. Returns ()),
          goto = (\<lambda>u. Returns ()),
          evaluate_click = (\<lambda>i. Returns False)\<rparr>
        ''https://hoopsfactory.com'' ''./downloads'' Map.empty
        \<lparr>title = ''14/06/2025 12h00'', downloadUrl = ''/download?path=b.mp4'',
          directUrl = Some ''b.mp4'', videoSrc = None, index = 1\<rparr> ''20251029'')
   \<and> attempts (download_video
        \<lparr>mkdir = (\<lambda>p. Returns ()),
          requests_get = (\<lambda>u. Returns (Response 404 [] True)),
          open_wb = (\<lambda>p. Returns ()),
          set_extra_http_headers = Returns (),
          expect_download = (\<lambda>u. Raises),
          save_as = (\<lambda>p. Returns ()),
          goto = (\<lambda>u. Returns ()),
          evaluate_click = (\<lambda>i. Returns False)\<rparr>
        ''https://hoopsfactory.com'' ''./downloads'' Map.empty
        \<lparr>title = ''14/06/2025 12h00'', downloadUrl = ''/download?path=b.mp4'',
          directUrl = Some ''b.mp4'', videoSrc = None, index = 1\<rparr> ''20251029'')
       = [Direct_fetch, Browser_download, Click_trigger]"
  using download_video_fallback_order [of
        "\<lparr>mkdir = (\<lambda>p. Returns ()),
          requests_get = (\<lambda>u. Returns (Response 404 [] True)),
          open_wb = (\<lambda>p. Returns ()),
          set_extra_http_headers = Returns (),
          expect_download = (\<lambda>u. Raises),
          save_as = (\<lambda>p. Returns ()),
          goto = (\<lambda>u. Returns ()),
          evaluate_click = (\<lambda>i. Returns False)\<rparr>"
        "''./downloads''" "''20251029''" "''https://hoopsfactory.com''" Map.empty
        "\<lparr>title = ''14/06/2025 12h00'', downloadUrl = ''/download?path=b.mp4'',
          directUrl = Some ''b.mp4'', videoSrc = None, index = 1\<rparr>"]
  by (simp add: direct_rejected_def py_or_def truthy_def has_direct_url_def
      direct_succeeds_def direct_fetch_def raise_for_status_def browser_succeeds_def
      click_succeeds_def)

text \<open>
  C1 as stated fails in two ways. When the dated folder cannot be created (the download
  directory is read-only, say), the call returns false although no method raised or
  returned false: none was entered, and the browser download would have succeeded. And
  for a record with neither a direct URL nor a video source the direct fetch is never
  attempted: the call returns false after two methods, not three.
\<close>

theorem download_video_fallback_counterexample:
  "download_video
        \<lparr>mkdir = (\<lambda>p. Raises),
          requests_get = (\<lambda>u. Returns (Response 200 [''data''] True)),
          open_wb = (\<lambda>p. Returns ()),
          set_extra_http_headers = Returns (),
          expect_download = (\<lambda>u. Returns ''data''),
          save_as = (\<lambda>p. Returns ()),
          goto = (\<lambda>u. Returns ()),
          evaluate_click = (\<lambda>i. Returns True)\<rparr>
        ''https://hoopsfactory.com'' ''./downloads'' Map.empty
        \<lparr>title = ''14/06/2025 12h00'', downloadUrl = ''/download?path=b.mp4'',
          directUrl = Some ''b.mp4'', videoSrc = None, index = 1\<rparr> ''20251029''
     = \<lparr>result = False, attempts = [], files = Map.empty\<rparr>
   \<and> result (download_video
        \<lparr>mkdir = (\<lambda>p. Returns ()),
          requests_get = (\<lambda>u. Returns (Response 200 [''data''] True)),
          open_wb = (\<lambda>p. Returns ()),
          set_extra_http_headers = Returns (),
          expect_download = (\<lambda>u. Raises),
          save_as = (\<lambda>p. Returns ()),
          goto = (\<lambda>u. Returns ()),
          evaluate_click = (\<lambda>i. Returns False)\<rparr>
        ''https://hoopsfactory.com'' ''./downloads'' Map.empty
        \<lparr>title = ''14/06/2025 12h00'', downloadUrl = ''/download'',
          directUrl = None, videoSrc = None, index = 1\<rparr> ''20251029'') = False
   \<and> attempts (download_video
        \<lparr>mkdir = (\<lambda>p. Returns ()),
          requests_get = (\<lambda>u. Returns (Response 200 [''data''] True)),
          open_wb = (\<lambda>p. Returns ()),
          set_extra_http_headers = Returns (),
          expect_download = (\<lambda>u. Raises),
          save_as = (\<lambda>p. Returns ()),
          goto = (\<lambda>u. Returns ()),
          evaluate_click = (\<lambda>i. Returns False)\<rparr>
        ''https://hoopsfactory.com'' ''./downloads'' Map.empty
        \<lparr>title = ''14/06/2025 12h00'', downloadUrl = ''/download'',
          directUrl = None, videoSrc = None, index = 1\<rparr> ''20251029'')
       = [Browser_download, Click_trigger]"
  by (simp add: download_video_def Let_def py_or_def truthy_def browser_download_def
      click_trigger_def)

subsection \<open>Colliding file names\<close>

lemma direct_fetch_complete:
  assumes "requests_get env url = Returns (Response status chunks True)"
    and "\<not> (400 \<le> status \<and> status < 600)"
    and "open_wb env p = Returns ()"
  shows "direct_fetch env d url p = (True, d(p \<mapsto> concat (filter (\<lambda>chunk. chunk \<noteq> []) chunks)))"
  using assms by (simp add: direct_fetch_def raise_for_status_def)

lemma download_video_direct:
  assumes mk: "mkdir env (download_dir @ ''/'' @ date_str) = Returns ()"
    and url: "py_or (directUrl v) (videoSrc v) = Some url" "url \<noteq> []"
    and get: "requests_get env url = Returns (Response status chunks True)"
      "\<not> (400 \<le> status \<and> status < 600)"
    and op: "open_wb env (download_path_of download_dir date_str (title v)) = Returns ()"
  shows "download_video env base_url download_dir d v date_str
           = \<lparr>result = True, attempts = [Direct_fetch],
              files = d(download_path_of download_dir date_str (title v)
                          \<mapsto> concat (filter (\<lambda>chunk. chunk \<noteq> []) chunks))\<rparr>"
  using url direct_fetch_complete [OF get op, of d]
  by (simp add: download_video_unfold [OF mk] Let_def direct_succeeds_def has_direct_url_def
      truthy_def)

text \<open>
  C10. The sanitization is not injective: two titles that differ only in a stripped colon
  give the same file name. And whenever two videos have the same file name and the direct
  fetch of the later one succeeds, the later download returns true after the direct fetch
  alone, exactly as it does on a disk without the earlier file, and the common destination
  then holds the body of the later video, whatever the earlier download had left there.
\<close>

theorem colliding_titles_overwrite:
  assumes collide: "filename (title v1) = filename (title v2)"
    and mk: "mkdir env (download_dir @ ''/'' @ date_str) = Returns ()"
    and url: "py_or (directUrl v2) (videoSrc v2) = Some url" "url \<noteq> []"
    and get: "requests_get env url = Returns (Response status chunks True)"
      "\<not> (400 \<le> status \<and> status < 600)"
    and op: "open_wb env (download_path_of download_dir date_str (title v2)) = Returns ()"
  shows "''Rucker Park: 12h00'' \<noteq> ''Rucker Park 12h00''
       \<and> filename ''Rucker Park: 12h00'' = filename ''Rucker Park 12h00''
       \<and> download_path_of download_dir date_str (title v1)
           = download_path_of download_dir date_str (title v2)
       \<and> (let r1 = download_video env base_url download_dir disk0 v1 date_str;
               r2 = download_video env base_url download_dir (files r1) v2 date_str
           in result r2
              \<and> attempts r2 = [Direct_fetch]
              \<and> result r2 = result (download_video env base_url download_dir disk0 v2 date_str)
              \<and> attempts r2 = attempts (download_video env base_url download_dir disk0 v2 date_str)
              \<and> files r2 (download_path_of download_dir date_str (title v1))
                  = Some (concat (filter (\<lambda>chunk. chunk \<noteq> []) chunks)))"
proof (intro conjI)
  show "''Rucker Park: 12h00'' \<noteq> ''Rucker Park 12h00''" by simp
  show "filename ''Rucker Park: 12h00'' = filename ''Rucker Park 12h00''" by code_simp
  show same: "download_path_of download_dir date_str (title v1)
           = download_path_of download_dir date_str (title v2)"
    using collide by (simp add: download_path_of_def)
  show "let r1 = download_video env base_url download_dir disk0 v1 date_str;
               r2 = download_video env base_url download_dir (files r1) v2 date_str
           in result r2
              \<and> attempts r2 = [Direct_fetch]
              \<and> result r2 = result (download_video env base_url download_dir disk0 v2 date_str)
              \<and> attempts r2 = attempts (download_video env base_url download_dir disk0 v2 date_str)
              \<and> files r2 (download_path_of download_dir date_str (title v1))
                  = Some (concat (filter (\<lambda>chunk. chunk \<noteq> []) chunks))"
    by (simp add: Let_def download_video_direct [OF mk url get op] same)
qed

theorem colliding_titles_overwrite_witness:
  "files (download_video
        \<lparr>mkdir = (\<lambda>p. Returns ()),
          requests_get = (\<lambda>u. if u = ''a.mp4'' then Returns (Response 200 [''first''] True)
                               else Returns (Response 200 [''sec'', [], ''ond''] True)),
          open_wb = (\<lambda>p. Returns ()),
          set_extra_http_headers = Returns (),
          expect_download = (\<lambda>u. Raises),
          save_as = (\<lambda>p. Returns ()),
          goto = (\<lambda>u. Returns ()),
          evaluate_click = (\<lambda>i. Returns False)\<rparr>
        ''https://hoopsfactory.com'' ''./downloads''
        (files (download_video
          \<lparr>mkdir = (\<lambda>p. Returns ()),
            requests_get = (\<lambda>u. if u = ''a.mp4'' then Returns (Response 200 [''first''] True)
                                 else Returns (Response 200 [''sec'', [], ''ond''] True)),
            open_wb = (\<lambda>p. Returns ()),
            set_extra_http_headers = Returns (),
            expect_download = (\<lambda>u. Raises),
            save_as = (\<lambda>p. Returns ()),
            goto = (\<lambda>u. Returns ()),
            evaluate_click = (\<lambda>i. Returns False)\<rparr>
          ''https://hoopsfactory.com'' ''./downloads'' Map.empty
          \<lparr>title = ''Rucker Park: 12h00'', downloadUrl = ''/download?path=a.mp4'',
            directUrl = Some ''a.mp4'', videoSrc = None, index = 0\<rparr> ''20251029''))
        \<lparr>title = ''Rucker Park 12h00'', downloadUrl = ''/download?path=b.mp4'',
          directUrl = Some ''b.mp4'', videoSrc = None, index = 1\<rparr> ''20251029'')
     ''./downloads/20251029/Rucker_Park_12h00.mp4'' = Some ''second''
   \<and> files (download_video
          \<lparr>mkdir = (\<lambda>p. Returns ()),
            requests_get = (\<lambda>u. if u = ''a.mp4'' then Returns (Response 200 [''first''] True)
                                 else Returns (Response 200 [''sec'', [], ''ond''] True)),
            open_wb = (\<lambda>p. Returns ()),
            set_extra_http_headers = Returns (),
            expect_download = (\<lambda>u. Raises),
            save_as = (\<lambda>p. Returns ()),
            goto = (\<lambda>u. Returns ()),
            evaluate_click = (\<lambda>i. Returns False)\<rparr>
          ''https://hoopsfactory.com'' ''./downloads'' Map.empty
          \<lparr>title = ''Rucker Park: 12h00'', downloadUrl = ''/download?path=a.mp4'',
            directUrl = Some ''a.mp4'', videoSrc = None, index = 0\<rparr> ''20251029'')
     ''./downloads/20251029/Rucker_Park_12h00.mp4'' = Some ''first''"
proof -
  let ?env = "\<lparr>mkdir = (\<lambda>p. Returns ()),
          requests_get = (\<lambda>u. if u = ''a.mp4'' then Returns (Response 200 [''first''] True)
                               else Returns (Response 200 [''sec'', [], ''ond''] True)),
          open_wb = (\<lambda>p. Returns ()),
          set_extra_http_headers = Returns (),
          expect_download = (\<lambda>u. Raises),
          save_as = (\<lambda>p. Returns ()),
          goto = (\<lambda>u. Returns ()),
          evaluate_click = (\<lambda>i. Returns False)\<rparr>"
  let ?v1 = "\<lparr>title = ''Rucker Park: 12h00'', downloadUrl = ''/download?path=a.mp4'',
            directUrl = Some ''a.mp4'', videoSrc = None, index = 0\<rparr>"
  let ?v2 = "\<lparr>title = ''Rucker Park 12h00'', downloadUrl = ''/download?path=b.mp4'',
          directUrl = Some ''b.mp4'', videoSrc = None, index = 1\<rparr>"
  have f1: "filename ''Rucker Park: 12h00'' = ''Rucker_Park_12h00.mp4''" by code_simp
  have f2: "filename ''Rucker Park 12h00'' = ''Rucker_Park_12h00.mp4''" by code_simp
  have collide: "filename (title ?v1) = filename (title ?v2)"
    by (simp add: f1 f2)
  have mk: "mkdir ?env (''./downloads'' @ ''/'' @ ''20251029'') = Returns ()" by simp
  have url: "py_or (directUrl ?v2) (videoSrc ?v2) = Some ''b.mp4''" "''b.mp4'' \<noteq> []"
    by (simp_all add: py_or_def truthy_def)
  have get: "requests_get ?env ''b.mp4'' = Returns (Response 200 [''sec'', [], ''ond''] True)"
    "\<not> (400 \<le> (200::nat) \<and> (200::nat) < 600)" by simp_all
  have op: "open_wb ?env (download_path_of ''./downloads'' ''20251029'' (title ?v2)) = Returns ()"
    by simp
  have first: "files (download_video ?env ''https://hoopsfactory.com'' ''./downloads'' Map.empty
                  ?v1 ''20251029'') ''./downloads/20251029/Rucker_Park_12h00.mp4'' = Some ''first''"
    by (simp add: download_video_def Let_def py_or_def truthy_def direct_fetch_def
        raise_for_status_def download_path_of_def f1)
  have path: "download_path_of ''./downloads'' ''20251029'' (title ?v1)
                = ''./downloads/20251029/Rucker_Park_12h00.mp4''"
    by (simp add: download_path_of_def f1)
  have body: "concat (filter (\<lambda>chunk. chunk \<noteq> []) [''sec'', [], ''ond'']) = ''second''"
    by simp
  have "files (download_video ?env ''https://hoopsfactory.com'' ''./downloads''
                 (files (download_video ?env ''https://hoopsfactory.com'' ''./downloads''
                           Map.empty ?v1 ''20251029'')) ?v2 ''20251029'')
              (download_path_of ''./downloads'' ''20251029'' (title ?v1))
          = Some (concat (filter (\<lambda>chunk. chunk \<noteq> []) [''sec'', [], ''ond'']))"
    using colliding_titles_overwrite [OF collide mk url get op,
        of "''https://hoopsfactory.com''" Map.empty]
    unfolding Let_def by blast
  then have "files (download_video ?env ''https://hoopsfactory.com'' ''./downloads''
                 (files (download_video ?env ''https://hoopsfactory.com'' ''./downloads''
                           Map.empty ?v1 ''20251029'')) ?v2 ''20251029'')
              ''./downloads/20251029/Rucker_Park_12h00.mp4'' = Some ''second''"
    unfolding path body .
  with first show ?thesis by blast
qed

subsection \<open>The date filter\<close>

lemma js_select_date_absent:
  "date \<notin> set (options select) \<Longrightarrow> js_select_date (Some select) date = (False, Some select)"
  by (simp add: js_select_date_def list_ex_iff)

lemma js_select_date_present:
  "date \<in> set (options select) \<Longrightarrow>
     js_select_date (Some select) date = (True, Some (select\<lparr>selected := date\<rparr>))"
  by (auto simp add: js_select_date_def list_ex_iff)

text \<open>
  C8, the behaviour of the code on the input where it departs from the claim. When no
  page action raises and the computed date key is not among the options of the date
  select, \<open>select_filters\<close> returns true and leaves the select as it was, but the log
  says that the date was selected and that the confirmation was clicked: the absence is
  not logged, and no line of the log is above the level INFO.
\<close>

theorem select_filters_absent_date_not_logged:
  assumes clicks: "\<And>selector. click env selector = Returns ()"
    and scripts: "\<And>js. evaluate env js = Returns ()"
    and key: "get_previous_wednesday strftime today = Returns key"
    and element: "videos_days env = Some select"
    and absent: "key \<notin> set (options select)"
  shows "select_filters env strftime today
           = (True, Some select,
              [(INFO, Setting_up_filters), (INFO, Selected_center), (INFO, Selected_court),
               (INFO, Selected_date key), (INFO, Clicked_ok), (INFO, Keeping_all_hours)])
         \<and> (WARNING, Date_not_available key) \<notin> set (snd (snd (select_filters env strftime today)))"
proof -
  have "select_filters env strftime today
           = (True, Some select,
              [(INFO, Setting_up_filters), (INFO, Selected_center), (INFO, Selected_court),
               (INFO, Selected_date key), (INFO, Clicked_ok), (INFO, Keeping_all_hours)])"
    using js_select_date_absent [OF absent]
    by (simp add: select_filters_def Let_def clicks scripts key element)
  then show ?thesis by simp
qed

theorem select_filters_absent_date_not_logged_witness:
  "select_filters
     \<lparr>click = (\<lambda>selector. Returns ()), evaluate = (\<lambda>js. Returns ()),
      videos_days = Some \<lparr>options = ['''', ''20251022''], selected = ''''\<rparr>\<rparr>
     (\<lambda>d. if d = 739553 then ''20251029'' else ''00000000'') 739560
   = (True, Some \<lparr>options = ['''', ''20251022''], selected = ''''\<rparr>,
      [(INFO, Setting_up_filters), (INFO, Selected_center), (INFO, Selected_court),
       (INFO, Selected_date ''20251029''), (INFO, Clicked_ok), (INFO, Keeping_all_hours)])"
proof -
  have key: "get_previous_wednesday (\<lambda>d. if d = 739553 then ''20251029'' else ''00000000'') 739560
               = Returns ''20251029''"
    by (simp add: get_previous_wednesday_def prev_wednesday_date_def weekday_def sub_days_def
        MAXORDINAL_def)
  show ?thesis
    using select_filters_absent_date_not_logged [where
        env = "\<lparr>click = (\<lambda>selector. Returns ()), evaluate = (\<lambda>js. Returns ()),
                 videos_days = Some \<lparr>options = ['''', ''20251022''], selected = ''''\<rparr>\<rparr>"
        and select = "\<lparr>options = ['''', ''20251022''], selected = ''''\<rparr>", OF _ _ key]
    by simp
qed

subsection \<open>One pass of the run loop\<close>

lemma setup_browser_opens:
  assumes "session_opens env"
  shows "setup_browser env s n
           = (Returns (),
              s\<lparr>playwright := Some n, browser := Some n, browser_context := Some n,
                page := Some n\<rparr>,
              [Launch (headless s)])"
  using assms by (cases "headless s") (simp_all add: session_opens_def setup_browser_def Let_def)

lemma close_browser_clean:
  assumes "closes_cleanly env"
  shows "close_browser env
           (s\<lparr>playwright := Some n, browser := Some n, browser_context := Some n, page := Some n\<rparr>)
         = ([Close_page n, Close_context n, Close_browser n, Stop_playwright n], Returns ())"
  using assms by (simp add: closes_cleanly_def close_browser_def guarded_close_def)

lemma try_block_login_fails:
  assumes "login_fails env base_url"
  shows "try_block env strftime base_url download_dir s n d
           = (retry_or n False, opened s n,
              [Launch (headless (escalate s n)), Login_returned False], d)"
  using assms setup_browser_opens [of env "escalate s n" n]
  by (simp add: login_fails_def try_block_def Let_def escalate_def opened_def)

lemma try_block_lists_nothing:
  assumes "reaches_listing env strftime base_url" and "fst (get_video_links (cards env)) = []"
  shows "try_block env strftime base_url download_dir s n d
           = (retry_or n True, opened s n,
              [Launch (headless (escalate s n)), Login_returned True, Filters_returned True,
               Listed 0], d)"
  using assms setup_browser_opens [of env "escalate s n" n]
  by (simp add: reaches_listing_def try_block_def Let_def escalate_def opened_def)

lemma loop_pass:
  assumes "retry_count \<le> max_retries"
    and "try_block (envs retry_count) strftime base_url download_dir s retry_count d
           = (ex, s1, ev, d1)"
    and "close_browser (envs retry_count) s1 = (closing, Returns ())"
  shows "download_videos_from envs strftime base_url download_dir s retry_count d trace
           = (case ex of
                Return b \<Rightarrow>
                  (Returns (Some b),
                   trace @ [Attempt retry_count] @ ev @ [Teardown retry_count] @ closing, d1)
              | Continue \<Rightarrow>
                  download_videos_from envs strftime base_url download_dir s1 (retry_count + 1) d1
                    (trace @ [Attempt retry_count] @ ev @ [Teardown retry_count] @ closing))"
  using assms by (subst download_videos_from.simps) (simp add: Let_def split: exit.splits)

lemma close_opened:
  assumes "closes_cleanly env"
  shows "close_browser env (opened s n)
           = ([Close_page n, Close_context n, Close_browser n, Stop_playwright n], Returns ())"
  unfolding opened_def using close_browser_clean [OF assms] by simp

lemma pass_login_fails:
  assumes n: "n \<le> max_retries" and env: "login_fails (envs n) base_url"
  shows "download_videos_from envs strftime base_url download_dir s n d trace
           = (if n < max_retries
              then download_videos_from envs strftime base_url download_dir (opened s n) (n + 1) d
                     (trace @ [Attempt n, Launch (headless (escalate s n)), Login_returned False]
                      @ full_teardown n)
              else (Returns (Some False),
                    trace @ [Attempt n, Launch (headless (escalate s n)), Login_returned False]
                    @ full_teardown n, d))"
proof -
  have c: "closes_cleanly (envs n)"
    using env by (simp add: login_fails_def)
  show ?thesis
    using loop_pass [where envs = envs and retry_count = n and trace = trace,
        OF n try_block_login_fails [OF env] close_opened [OF c]]
    by (simp add: retry_or_def full_teardown_def)
qed

lemma pass_lists_nothing:
  assumes n: "n \<le> max_retries" and env: "reaches_listing (envs n) strftime base_url"
    and empty: "fst (get_video_links (cards (envs n))) = []"
  shows "download_videos_from envs strftime base_url download_dir s n d trace
           = (if n < max_retries
              then download_videos_from envs strftime base_url download_dir (opened s n) (n + 1) d
                     (trace @ [Attempt n, Launch (headless (escalate s n)), Login_returned True,
                               Filters_returned True, Listed 0]
                      @ full_teardown n)
              else (Returns (Some True),
                    trace @ [Attempt n, Launch (headless (escalate s n)), Login_returned True,
                             Filters_returned True, Listed 0]
                    @ full_teardown n, d))"
proof -
  have c: "closes_cleanly (envs n)"
    using env by (simp add: reaches_listing_def)
  have tb: "try_block (envs n) strftime base_url download_dir s n d
           = (retry_or n True, opened s n,
              [Launch (headless (escalate s n)), Login_returned True, Filters_returned True,
               Listed 0], d)"
    by (rule try_block_lists_nothing [OF env empty])
  show ?thesis
    using loop_pass [where envs = envs and retry_count = n and trace = trace,
        OF n tb close_opened [OF c]]
    by (simp add: retry_or_def full_teardown_def)
qed

lemma headless_passes:
  fixes start_headless :: bool
  defines "s0 \<equiv> \<lparr>headless = start_headless, playwright = None, browser = None,
                  browser_context = None, page = None\<rparr>"
  shows "headless (escalate s0 0) = start_headless"
    and "headless (escalate (opened s0 0) (Suc 0)) = start_headless"
    and "headless (escalate (opened (opened s0 0) (Suc 0)) 2) = False"
  by (simp_all add: s0_def escalate_def opened_def max_retries_def)

lemma three_passes:
  fixes start_headless :: bool
  defines "s0 \<equiv> \<lparr>headless = start_headless, playwright = None, browser = None,
                  browser_context = None, page = None\<rparr>"
  assumes p0: "\<And>s d trace. loop s 0 d trace
                 = loop (opened s 0) 1 d (trace @ Attempt 0 # Launch (headless (escalate s 0)) # ev
                                          @ full_teardown 0)"
    and p1: "\<And>s d trace. loop s 1 d trace
                 = loop (opened s 1) 2 d (trace @ Attempt 1 # Launch (headless (escalate s 1)) # ev
                                          @ full_teardown 1)"
    and p2: "\<And>s d trace. loop s 2 d trace
                 = (Returns (Some b),
                    trace @ Attempt 2 # Launch (headless (escalate s 2)) # ev @ full_teardown 2, d)"
  shows "loop s0 (0::nat) d []
           = (Returns (Some b),
              Attempt 0 # Launch start_headless # ev @ full_teardown 0
              @ Attempt 1 # Launch start_headless # ev @ full_teardown 1
              @ Attempt 2 # Launch False # ev @ full_teardown 2, d)"
  apply (subst p0)
  apply (subst p1)
  apply (subst p2)
  apply (simp add: headless_passes [of start_headless, folded s0_def])
  done

text \<open>
  C5. When the login is reached and fails in each of the three passes, and empty else
  goes wrong, \<open>download_videos\<close> returns false and the process exits with code 1 after
  exactly three passes, each with its own browser session opened and closed; the first two
  sessions are launched in the mode the process started in, the third in visible mode.
\<close>

theorem three_login_failures:
  assumes "login_fails (envs 0) base_url" and "login_fails (envs 1) base_url"
    and "login_fails (envs 2) base_url"
  shows "fst (download_videos envs strftime base_url download_dir start_headless start_disk)
           = Returns (Some False)
       \<and> exit_code (fst (download_videos envs strftime base_url download_dir start_headless start_disk)) = 1
       \<and> fst (snd (download_videos envs strftime base_url download_dir start_headless start_disk))
           = [Attempt 0, Launch start_headless, Login_returned False] @ full_teardown 0
             @ [Attempt 1, Launch start_headless, Login_returned False] @ full_teardown 1
             @ [Attempt 2, Launch False, Login_returned False] @ full_teardown 2"
proof -
  have "download_videos envs strftime base_url download_dir start_headless start_disk
          = (Returns (Some False),
             Attempt 0 # Launch start_headless # [Login_returned False] @ full_teardown 0
             @ Attempt 1 # Launch start_headless # [Login_returned False] @ full_teardown 1
             @ Attempt 2 # Launch False # [Login_returned False] @ full_teardown 2, start_disk)"
    unfolding download_videos_def
  proof (rule three_passes)
    show "download_videos_from envs strftime base_url download_dir s 0 d trace
            = download_videos_from envs strftime base_url download_dir (opened s 0) 1 d
                (trace @ Attempt 0 # Launch (headless (escalate s 0)) # [Login_returned False]
                 @ full_teardown 0)" for s d trace
      using pass_login_fails [where envs = envs and n = 0, OF _ assms(1)] by (simp add: max_retries_def)
    show "download_videos_from envs strftime base_url download_dir s 1 d trace
            = download_videos_from envs strftime base_url download_dir (opened s 1) 2 d
                (trace @ Attempt 1 # Launch (headless (escalate s 1)) # [Login_returned False]
                 @ full_teardown 1)" for s d trace
      using pass_login_fails [where envs = envs and n = 1, OF _ assms(2)] by (simp add: max_retries_def numeral_2_eq_2)
    show "download_videos_from envs strftime base_url download_dir s 2 d trace
            = (Returns (Some False),
               trace @ Attempt 2 # Launch (headless (escalate s 2)) # [Login_returned False]
               @ full_teardown 2, d)" for s d trace
      using pass_login_fails [where envs = envs and n = 2, OF _ assms(3)] by (simp add: max_retries_def)
  qed
  then show ?thesis
    by (simp add: exit_code_def)
qed

theorem three_login_failures_witness:
  "login_fails
        \<lparr>start_playwright = Returns (), launch = (\<lambda>h. Returns ()),
         new_context = Returns (), new_page = Returns (),
         page_goto = (\<lambda>url. Returns ()), login = False,
         filters = \<lparr>click = (\<lambda>selector. Returns ()), evaluate = (\<lambda>js. Returns ()),
                    videos_days = None\<rparr>,
         system_date = 739560, cards = Returns [],
         downloads = \<lparr>mkdir = (\<lambda>p. Returns ()), requests_get = (\<lambda>u. Raises),
                      open_wb = (\<lambda>p. Returns ()), set_extra_http_headers = Returns (),
                      expect_download = (\<lambda>u. Raises), save_as = (\<lambda>p. Returns ()),
                      goto = (\<lambda>u. Returns ()), evaluate_click = (\<lambda>i. Returns False)\<rparr>,
         page_close = Returns (), context_close = Returns (),
         browser_close = Returns (), playwright_stop = Returns ()\<rparr> ''https://hoopsfactory.com''
   \<and> fst (download_videos (\<lambda>n.
        \<lparr>start_playwright = Returns (), launch = (\<lambda>h. Returns ()),
         new_context = Returns (), new_page = Returns (),
         page_goto = (\<lambda>url. Returns ()), login = False,
         filters = \<lparr>click = (\<lambda>selector. Returns ()), evaluate = (\<lambda>js. Returns ()),
                    videos_days = None\<rparr>,
         system_date = 739560, cards = Returns [],
         downloads = \<lparr>mkdir = (\<lambda>p. Returns ()), requests_get = (\<lambda>u. Raises),
                      open_wb = (\<lambda>p. Returns ()), set_extra_http_headers = Returns (),
                      expect_download = (\<lambda>u. Raises), save_as = (\<lambda>p. Returns ()),
                      goto = (\<lambda>u. Returns ()), evaluate_click = (\<lambda>i. Returns False)\<rparr>,
         page_close = Returns (), context_close = Returns (),
         browser_close = Returns (), playwright_stop = Returns ()\<rparr>)
        (\<lambda>d. ''20251029'') ''https://hoopsfactory.com'' ''./downloads'' True Map.empty)
       = Returns (Some False)
   \<and> fst (snd (download_videos (\<lambda>n.
        \<lparr>start_playwright = Returns (), launch = (\<lambda>h. Returns ()),
         new_context = Returns (), new_page = Returns (),
         page_goto = (\<lambda>url. Returns ()), login = False,
         filters = \<lparr>click = (\<lambda>selector. Returns ()), evaluate = (\<lambda>js. Returns ()),
                    videos_days = None\<rparr>,
         system_date = 739560, cards = Returns [],
         downloads = \<lparr>mkdir = (\<lambda>p. Returns ()), requests_get = (\<lambda>u. Raises),
                      open_wb = (\<lambda>p. Returns ()), set_extra_http_headers = Returns (),
                      expect_download = (\<lambda>u. Raises), save_as = (\<lambda>p. Returns ()),
                      goto = (\<lambda>u. Returns ()), evaluate_click = (\<lambda>i. Returns False)\<rparr>,
         page_close = Returns (), context_close = Returns (),
         browser_close = Returns (), playwright_stop = Returns ()\<rparr>)
        (\<lambda>d. ''20251029'') ''https://hoopsfactory.com'' ''./downloads'' True Map.empty))
       = [Attempt 0, Launch True, Login_returned False] @ full_teardown 0
         @ [Attempt 1, Launch True, Login_returned False] @ full_teardown 1
         @ [Attempt 2, Launch False, Login_returned False] @ full_teardown 2"
proof -
  have h: "login_fails
        \<lparr>start_playwright = Returns (), launch = (\<lambda>h. Returns ()),
         new_context = Returns (), new_page = Returns (),
         page_goto = (\<lambda>url. Returns ()), login = False,
         filters = \<lparr>click = (\<lambda>selector. Returns ()), evaluate = (\<lambda>js. Returns ()),
                    videos_days = None\<rparr>,
         system_date = 739560, cards = Returns [],
         downloads = \<lparr>mkdir = (\<lambda>p. Returns ()), requests_get = (\<lambda>u. Raises),
                      open_wb = (\<lambda>p. Returns ()), set_extra_http_headers = Returns (),
                      expect_download = (\<lambda>u. Raises), save_as = (\<lambda>p. Returns ()),
                      goto = (\<lambda>u. Returns ()), evaluate_click = (\<lambda>i. Returns False)\<rparr>,
         page_close = Returns (), context_close = Returns (),
         browser_close = Returns (), playwright_stop = Returns ()\<rparr> ''https://hoopsfactory.com''"
    by (simp add: login_fails_def session_opens_def closes_cleanly_def)
  show ?thesis
    using h three_login_failures [where envs = "\<lambda>n.
        \<lparr>start_playwright = Returns (), launch = (\<lambda>h. Returns ()),
         new_context = Returns (), new_page = Returns (),
         page_goto = (\<lambda>url. Returns ()), login = False,
         filters = \<lparr>click = (\<lambda>selector. Returns ()), evaluate = (\<lambda>js. Returns ()),
                    videos_days = None\<rparr>,
         system_date = 739560, cards = Returns [],
         downloads = \<lparr>mkdir = (\<lambda>p. Returns ()), requests_get = (\<lambda>u. Raises),
                      open_wb = (\<lambda>p. Returns ()), set_extra_http_headers = Returns (),
                      expect_download = (\<lambda>u. Raises), save_as = (\<lambda>p. Returns ()),
                      goto = (\<lambda>u. Returns ()), evaluate_click = (\<lambda>i. Returns False)\<rparr>,
         page_close = Returns (), context_close = Returns (),
         browser_close = Returns (), playwright_stop = Returns ()\<rparr>"
      and base_url = "''https://hoopsfactory.com''" and strftime = "(\<lambda>d. ''20251029'')"
      and download_dir = "''./downloads''" and start_headless = True and start_disk = Map.empty,
      OF h h h]
    by simp
qed

lemma empty_listing_run:
  assumes reach: "\<And>n. n \<le> max_retries \<Longrightarrow> reaches_listing (envs n) strftime base_url"
    and empty: "\<And>n. n \<le> max_retries \<Longrightarrow> fst (get_video_links (cards (envs n))) = []"
  shows "download_videos envs strftime base_url download_dir start_headless start_disk
          = (Returns (Some True),
             Attempt 0 # Launch start_headless # [Login_returned True, Filters_returned True, Listed 0]
             @ full_teardown 0
             @ Attempt 1 # Launch start_headless # [Login_returned True, Filters_returned True, Listed 0]
             @ full_teardown 1
             @ Attempt 2 # Launch False # [Login_returned True, Filters_returned True, Listed 0]
             @ full_teardown 2, start_disk)"
  unfolding download_videos_def
proof (rule three_passes)
  let ?ev = "[Login_returned True, Filters_returned True, Listed 0]"
  show "download_videos_from envs strftime base_url download_dir s 0 d trace
          = download_videos_from envs strftime base_url download_dir (opened s 0) 1 d
              (trace @ Attempt 0 # Launch (headless (escalate s 0)) # ?ev @ full_teardown 0)"
    for s d trace
    using pass_lists_nothing [where envs = envs and n = 0, OF _ reach empty]
    by (simp add: max_retries_def)
  show "download_videos_from envs strftime base_url download_dir s 1 d trace
          = download_videos_from envs strftime base_url download_dir (opened s 1) 2 d
              (trace @ Attempt 1 # Launch (headless (escalate s 1)) # ?ev @ full_teardown 1)"
    for s d trace
    using pass_lists_nothing [where envs = envs and n = 1, OF _ reach empty]
    by (simp add: max_retries_def numeral_2_eq_2)
  show "download_videos_from envs strftime base_url download_dir s 2 d trace
          = (Returns (Some True),
             trace @ Attempt 2 # Launch (headless (escalate s 2)) # ?ev @ full_teardown 2, d)"
    for s d trace
    using pass_lists_nothing [where envs = envs and n = 2, OF _ reach empty]
    by (simp add: max_retries_def)
qed

text \<open>
  C6. When login and filters succeed and the listing is empty in each of the three passes,
  and nothing else goes wrong, the loop retries twice and then returns true: the process
  exits with code 0 after three passes.
\<close>

theorem empty_listing_is_success:
  assumes reach: "\<And>n. n \<le> max_retries \<Longrightarrow> reaches_listing (envs n) strftime base_url"
    and empty: "\<And>n. n \<le> max_retries \<Longrightarrow> fst (get_video_links (cards (envs n))) = []"
  shows "fst (download_videos envs strftime base_url download_dir start_headless start_disk)
           = Returns (Some True)
       \<and> exit_code (fst (download_videos envs strftime base_url download_dir start_headless start_disk)) = 0
       \<and> fst (snd (download_videos envs strftime base_url download_dir start_headless start_disk))
           = [Attempt 0, Launch start_headless, Login_returned True, Filters_returned True, Listed 0]
             @ full_teardown 0
             @ [Attempt 1, Launch start_headless, Login_returned True, Filters_returned True, Listed 0]
             @ full_teardown 1
             @ [Attempt 2, Launch False, Login_returned True, Filters_returned True, Listed 0]
             @ full_teardown 2"
  by (simp add: empty_listing_run [OF reach empty] exit_code_def)

lemma select_filters_example:
  "fst (select_filters
          \<lparr>click = (\<lambda>selector. Returns ()), evaluate = (\<lambda>js. Returns ()), videos_days = None\<rparr>
          (\<lambda>d. ''20251029'') 739560)"
  by (simp add: select_filters_def get_previous_wednesday_def prev_wednesday_date_def
      weekday_def sub_days_def MAXORDINAL_def Let_def js_select_date_def)

theorem empty_listing_is_success_witness:
  "reaches_listing
        \<lparr>start_playwright = Returns (), launch = (\<lambda>h. Returns ()),
         new_context = Returns (), new_page = Returns (),
         page_goto = (\<lambda>url. Returns ()), login = True,
         filters = \<lparr>click = (\<lambda>selector. Returns ()), evaluate = (\<lambda>js. Returns ()),
                    videos_days = None\<rparr>,
         system_date = 739560, cards = Returns [],
         downloads = \<lparr>mkdir = (\<lambda>p. Returns ()), requests_get = (\<lambda>u. Raises),
                      open_wb = (\<lambda>p. Returns ()), set_extra_http_headers = Returns (),
                      expect_download = (\<lambda>u. Raises), save_as = (\<lambda>p. Returns ()),
                      goto = (\<lambda>u. Returns ()), evaluate_click = (\<lambda>i. Returns False)\<rparr>,
         page_close = Returns (), context_close = Returns (),
         browser_close = Returns (), playwright_stop = Returns ()\<rparr> (\<lambda>d. ''20251029'') ''https://hoopsfactory.com''
   \<and> fst (download_videos (\<lambda>n.
        \<lparr>start_playwright = Returns (), launch = (\<lambda>h. Returns ()),
         new_context = Returns (), new_page = Returns (),
         page_goto = (\<lambda>url. Returns ()), login = True,
         filters = \<lparr>click = (\<lambda>selector. Returns ()), evaluate = (\<lambda>js. Returns ()),
                    videos_days = None\<rparr>,
         system_date = 739560, cards = Returns [],
         downloads = \<lparr>mkdir = (\<lambda>p. Returns ()), requests_get = (\<lambda>u. Raises),
                      open_wb = (\<lambda>p. Returns ()), set_extra_http_headers = Returns (),
                      expect_download = (\<lambda>u. Raises), save_as = (\<lambda>p. Returns ()),
                      goto = (\<lambda>u. Returns ()), evaluate_click = (\<lambda>i. Returns False)\<rparr>,
         page_close = Returns (), context_close = Returns (),
         browser_close = Returns (), playwright_stop = Returns ()\<rparr>)
        (\<lambda>d. ''20251029'') ''https://hoopsfactory.com'' ''./downloads'' True Map.empty)
       = Returns (Some True)
   \<and> exit_code (fst (download_videos (\<lambda>n.
        \<lparr>start_playwright = Returns (), launch = (\<lambda>h. Returns ()),
         new_context = Returns (), new_page = Returns (),
         page_goto = (\<lambda>url. Returns ()), login = True,
         filters = \<lparr>click = (\<lambda>selector. Returns ()), evaluate = (\<lambda>js. Returns ()),
                    videos_days = None\<rparr>,
         system_date = 739560, cards = Returns [],
         downloads = \<lparr>mkdir = (\<lambda>p. Returns ()), requests_get = (\<lambda>u. Raises),
                      open_wb = (\<lambda>p. Returns ()), set_extra_http_headers = Returns (),
                      expect_download = (\<lambda>u. Raises), save_as = (\<lambda>p. Returns ()),
                      goto = (\<lambda>u. Returns ()), evaluate_click = (\<lambda>i. Returns False)\<rparr>,
         page_close = Returns (), context_close = Returns (),
         browser_close = Returns (), playwright_stop = Returns ()\<rparr>)
        (\<lambda>d. ''20251029'') ''https://hoopsfactory.com'' ''./downloads'' True Map.empty)) = 0"
proof -
  have h: "reaches_listing
        \<lparr>start_playwright = Returns (), launch = (\<lambda>h. Returns ()),
         new_context = Returns (), new_page = Returns (),
         page_goto = (\<lambda>url. Returns ()), login = True,
         filters = \<lparr>click = (\<lambda>selector. Returns ()), evaluate = (\<lambda>js. Returns ()),
                    videos_days = None\<rparr>,
         system_date = 739560, cards = Returns [],
         downloads = \<lparr>mkdir = (\<lambda>p. Returns ()), requests_get = (\<lambda>u. Raises),
                      open_wb = (\<lambda>p. Returns ()), set_extra_http_headers = Returns (),
                      expect_download = (\<lambda>u. Raises), save_as = (\<lambda>p. Returns ()),
                      goto = (\<lambda>u. Returns ()), evaluate_click = (\<lambda>i. Returns False)\<rparr>,
         page_close = Returns (), context_close = Returns (),
         browser_close = Returns (), playwright_stop = Returns ()\<rparr> (\<lambda>d. ''20251029'') ''https://hoopsfactory.com''"
    by (simp add: reaches_listing_def session_opens_def closes_cleanly_def
        select_filters_example)
  have e: "fst (get_video_links (cards
        \<lparr>start_playwright = Returns (), launch = (\<lambda>h. Returns ()),
         new_context = Returns (), new_page = Returns (),
         page_goto = (\<lambda>url. Returns ()), login = True,
         filters = \<lparr>click = (\<lambda>selector. Returns ()), evaluate = (\<lambda>js. Returns ()),
                    videos_days = None\<rparr>,
         system_date = 739560, cards = Returns [],
         downloads = \<lparr>mkdir = (\<lambda>p. Returns ()), requests_get = (\<lambda>u. Raises),
                      open_wb = (\<lambda>p. Returns ()), set_extra_http_headers = Returns (),
                      expect_download = (\<lambda>u. Raises), save_as = (\<lambda>p. Returns ()),
                      goto = (\<lambda>u. Returns ()), evaluate_click = (\<lambda>i. Returns False)\<rparr>,
         page_close = Returns (), context_close = Returns (),
         browser_close = Returns (), playwright_stop = Returns ()\<rparr>)) = []"
    by (simp add: get_video_links_def)
  show ?thesis
    using h empty_listing_is_success [where envs = "\<lambda>n.
        \<lparr>start_playwright = Returns (), launch = (\<lambda>h. Returns ()),
         new_context = Returns (), new_page = Returns (),
         page_goto = (\<lambda>url. Returns ()), login = True,
         filters = \<lparr>click = (\<lambda>selector. Returns ()), evaluate = (\<lambda>js. Returns ()),
                    videos_days = None\<rparr>,
         system_date = 739560, cards = Returns [],
         downloads = \<lparr>mkdir = (\<lambda>p. Returns ()), requests_get = (\<lambda>u. Raises),
                      open_wb = (\<lambda>p. Returns ()), set_extra_http_headers = Returns (),
                      expect_download = (\<lambda>u. Raises), save_as = (\<lambda>p. Returns ()),
                      goto = (\<lambda>u. Returns ()), evaluate_click = (\<lambda>i. Returns False)\<rparr>,
         page_close = Returns (), context_close = Returns (),
         browser_close = Returns (), playwright_stop = Returns ()\<rparr>"
      and base_url = "''https://hoopsfactory.com''" and strftime = "(\<lambda>d. ''20251029'')"
      and download_dir = "''./downloads''" and start_headless = True and start_disk = Map.empty,
      OF h e]
    by (simp add: exit_code_def)
qed

text \<open>
  C9. \<open>get_video_links\<close> answers an exception of the scraping with the empty list, the
  answer it gives to a page without cards. When the scraping raises in every pass, and
  login and filters succeed, the run is the run of the same world with an empty page in
  every pass, event for event: the loop makes its three passes, each listing nothing and
  each with its session opened and closed, the last one in visible mode; then, the
  retries being exhausted, it returns true and the process exits with code 0.
\<close>

theorem scraping_failure_exits_zero:
  assumes reach: "\<And>n. n \<le> max_retries \<Longrightarrow> reaches_listing (envs n) strftime base_url"
    and raises: "\<And>n. n \<le> max_retries \<Longrightarrow> cards (envs n) = Raises"
  shows "fst (get_video_links Raises) = []
       \<and> fst (get_video_links Raises) = fst (get_video_links (Returns []))
       \<and> try_block (env\<lparr>cards := Raises\<rparr>) strftime base_url download_dir s k d
           = try_block (env\<lparr>cards := Returns []\<rparr>) strftime base_url download_dir s k d
       \<and> download_videos envs strftime base_url download_dir start_headless start_disk
           = download_videos (\<lambda>n. (envs n)\<lparr>cards := Returns []\<rparr>) strftime base_url download_dir
               start_headless start_disk
       \<and> fst (download_videos envs strftime base_url download_dir start_headless start_disk)
           = Returns (Some True)
       \<and> exit_code (fst (download_videos envs strftime base_url download_dir start_headless start_disk)) = 0
       \<and> fst (snd (download_videos envs strftime base_url download_dir start_headless start_disk))
           = [Attempt 0, Launch start_headless, Login_returned True, Filters_returned True, Listed 0]
             @ full_teardown 0
             @ [Attempt 1, Launch start_headless, Login_returned True, Filters_returned True, Listed 0]
             @ full_teardown 1
             @ [Attempt 2, Launch False, Login_returned True, Filters_returned True, Listed 0]
             @ full_teardown 2"
proof -
  have e1: "fst (get_video_links Raises) = []"
    by (simp add: get_video_links_def)
  have e2: "fst (get_video_links (Returns [])) = []"
    by (simp add: get_video_links_def)
  have a: "fst (get_video_links (cards (envs n))) = []" if "n \<le> max_retries" for n
    using raises [OF that] e1 by simp
  have b: "reaches_listing ((envs n)\<lparr>cards := Returns []\<rparr>) strftime base_url"
    if "n \<le> max_retries" for n
    using reach [OF that]
    by (simp add: reaches_listing_def session_opens_def closes_cleanly_def)
  have c: "fst (get_video_links (cards ((envs n)\<lparr>cards := Returns []\<rparr>))) = []" for n
    using e2 by simp
  have same: "try_block (env\<lparr>cards := Raises\<rparr>) strftime base_url download_dir s k d
           = try_block (env\<lparr>cards := Returns []\<rparr>) strftime base_url download_dir s k d"
    by (simp add: try_block_def setup_browser_def e1 e2 Let_def split: outcome.splits)
  show ?thesis
    using empty_listing_run [of envs strftime base_url, OF reach a]
      empty_listing_run [of "\<lambda>n. (envs n)\<lparr>cards := Returns []\<rparr>" strftime base_url, OF b c]
    by (simp add: e1 e2 same exit_code_def)
qed

theorem scraping_failure_exits_zero_witness:
  "reaches_listing
        \<lparr>start_playwright = Returns (), launch = (\<lambda>h. Returns ()),
         new_context = Returns (), new_page = Returns (),
         page_goto = (\<lambda>url. Returns ()), login = True,
         filters = \<lparr>click = (\<lambda>selector. Returns ()), evaluate = (\<lambda>js. Returns ()),
                    videos_days = None\<rparr>,
         system_date = 739560, cards = Raises,
         downloads = \<lparr>mkdir = (\<lambda>p. Returns ()), requests_get = (\<lambda>u. Raises),
                      open_wb = (\<lambda>p. Returns ()), set_extra_http_headers = Returns (),
                      expect_download = (\<lambda>u. Raises), save_as = (\<lambda>p. Returns ()),
                      goto = (\<lambda>u. Returns ()), evaluate_click = (\<lambda>i. Returns False)\<rparr>,
         page_close = Returns (), context_close = Returns (),
         browser_close = Returns (), playwright_stop = Returns ()\<rparr> (\<lambda>d. ''20251029'') ''https://hoopsfactory.com''
   \<and> exit_code (fst (download_videos (\<lambda>n.
        \<lparr>start_playwright = Returns (), launch = (\<lambda>h. Returns ()),
         new_context = Returns (), new_page = Returns (),
         page_goto = (\<lambda>url. Returns ()), login = True,
         filters = \<lparr>click = (\<lambda>selector. Returns ()), evaluate = (\<lambda>js. Returns ()),
                    videos_days = None\<rparr>,
         system_date = 739560, cards = Raises,
         downloads = \<lparr>mkdir = (\<lambda>p. Returns ()), requests_get = (\<lambda>u. Raises),
                      open_wb = (\<lambda>p. Returns ()), set_extra_http_headers = Returns (),
                      expect_download = (\<lambda>u. Raises), save_as = (\<lambda>p. Returns ()),
                      goto = (\<lambda>u. Returns ()), evaluate_click = (\<lambda>i. Returns False)\<rparr>,
         page_close = Returns (), context_close = Returns (),
         browser_close = Returns (), playwright_stop = Returns ()\<rparr>)
        (\<lambda>d. ''20251029'') ''https://hoopsfactory.com'' ''./downloads'' True Map.empty)) = 0"
proof -
  have h: "reaches_listing
        \<lparr>start_playwright = Returns (), launch = (\<lambda>h. Returns ()),
         new_context = Returns (), new_page = Returns (),
         page_goto = (\<lambda>url. Returns ()), login = True,
         filters = \<lparr>click = (\<lambda>selector. Returns ()), evaluate = (\<lambda>js. Returns ()),
                    videos_days = None\<rparr>,
         system_date = 739560, cards = Raises,
         downloads = \<lparr>mkdir = (\<lambda>p. Returns ()), requests_get = (\<lambda>u. Raises),
                      open_wb = (\<lambda>p. Returns ()), set_extra_http_headers = Returns (),
                      expect_download = (\<lambda>u. Raises), save_as = (\<lambda>p. Returns ()),
                      goto = (\<lambda>u. Returns ()), evaluate_click = (\<lambda>i. Returns False)\<rparr>,
         page_close = Returns (), context_close = Returns (),
         browser_close = Returns (), playwright_stop = Returns ()\<rparr> (\<lambda>d. ''20251029'') ''https://hoopsfactory.com''"
    by (simp add: reaches_listing_def session_opens_def closes_cleanly_def
        select_filters_example)
  have e: "cards
        \<lparr>start_playwright = Returns (), launch = (\<lambda>h. Returns ()),
         new_context = Returns (), new_page = Returns (),
         page_goto = (\<lambda>url. Returns ()), login = True,
         filters = \<lparr>click = (\<lambda>selector. Returns ()), evaluate = (\<lambda>js. Returns ()),
                    videos_days = None\<rparr>,
         system_date = 739560, cards = Raises,
         downloads = \<lparr>mkdir = (\<lambda>p. Returns ()), requests_get = (\<lambda>u. Raises),
                      open_wb = (\<lambda>p. Returns ()), set_extra_http_headers = Returns (),
                      expect_download = (\<lambda>u. Raises), save_as = (\<lambda>p. Returns ()),
                      goto = (\<lambda>u. Returns ()), evaluate_click = (\<lambda>i. Returns False)\<rparr>,
         page_close = Returns (), context_close = Returns (),
         browser_close = Returns (), playwright_stop = Returns ()\<rparr> = Raises"
    by simp
  show ?thesis
    using h scraping_failure_exits_zero [where envs = "\<lambda>n.
        \<lparr>start_playwright = Returns (), launch = (\<lambda>h. Returns ()),
         new_context = Returns (), new_page = Returns (),
         page_goto = (\<lambda>url. Returns ()), login = True,
         filters = \<lparr>click = (\<lambda>selector. Returns ()), evaluate = (\<lambda>js. Returns ()),
                    videos_days = None\<rparr>,
         system_date = 739560, cards = Raises,
         downloads = \<lparr>mkdir = (\<lambda>p. Returns ()), requests_get = (\<lambda>u. Raises),
                      open_wb = (\<lambda>p. Returns ()), set_extra_http_headers = Returns (),
                      expect_download = (\<lambda>u. Raises), save_as = (\<lambda>p. Returns ()),
                      goto = (\<lambda>u. Returns ()), evaluate_click = (\<lambda>i. Returns False)\<rparr>,
         page_close = Returns (), context_close = Returns (),
         browser_close = Returns (), playwright_stop = Returns ()\<rparr>"
      and base_url = "''https://hoopsfactory.com''" and strftime = "(\<lambda>d. ''20251029'')"
      and download_dir = "''./downloads''" and start_headless = True and start_disk = Map.empty
      and k = 0 and d = Map.empty
      and s = "\<lparr>headless = True, playwright = Some 0, browser = Some 0, browser_context = Some 0, page = Some 0\<rparr>"
      and env = "
        \<lparr>start_playwright = Returns (), launch = (\<lambda>h. Returns ()),
         new_context = Returns (), new_page = Returns (),
         page_goto = (\<lambda>url. Returns ()), login = True,
         filters = \<lparr>click = (\<lambda>selector. Returns ()), evaluate = (\<lambda>js. Returns ()),
                    videos_days = None\<rparr>,
         system_date = 739560, cards = Raises,
         downloads = \<lparr>mkdir = (\<lambda>p. Returns ()), requests_get = (\<lambda>u. Raises),
                      open_wb = (\<lambda>p. Returns ()), set_extra_http_headers = Returns (),
                      expect_download = (\<lambda>u. Raises), save_as = (\<lambda>p. Returns ()),
                      goto = (\<lambda>u. Returns ()), evaluate_click = (\<lambda>i. Returns False)\<rparr>,
         page_close = Returns (), context_close = Returns (),
         browser_close = Returns (), playwright_stop = Returns ()\<rparr>",
      OF h e]
    by blast
qed

subsection \<open>The teardown\<close>

lemma close_browser_until_failure:
  "close_browser env s
     = (map fst (takeWhile close_returns (closes_due env s))
        @ (case dropWhile close_returns (closes_due env s) of [] \<Rightarrow> [] | c # rest \<Rightarrow> [fst c]),
        if list_all close_returns (closes_due env s) then Returns () else Raises)"
  by (simp add: close_browser_def guarded_close_def closes_due_def close_returns_def
      split: option.splits outcome.splits)

lemma setup_browser_pass_events: "list_all is_pass_event (snd (snd (setup_browser env s n)))"
  by (simp add: setup_browser_def Let_def is_pass_event_def split: outcome.splits)

lemma try_block_pass_events:
  "list_all is_pass_event
     (fst (snd (snd (try_block env strftime base_url download_dir s n d))))"
  by (simp add: try_block_def Let_def is_pass_event_def case_prod_beta
      setup_browser_pass_events split: outcome.splits)

lemma try_block_session:
  "fst (snd (try_block env strftime base_url download_dir s n d)) = pass_session env s n"
  by (simp add: try_block_def Let_def case_prod_beta pass_session_def escalate_def
      split: outcome.splits)

lemma passes_of_run:
  assumes start: "s = (case n of 0 \<Rightarrow> initial_session h | Suc j \<Rightarrow> session_at_teardown envs h j)"
  shows "\<exists>m evs. n \<le> m \<and> m \<le> max n (Suc max_retries) \<and> (n \<le> max_retries \<longrightarrow> n < m)
     \<and> fst (snd (download_videos_from envs strftime base_url download_dir s n d trace))
        = trace @ concat (map (\<lambda>k. [Attempt k] @ evs k @ [Teardown k]
                                   @ fst (close_browser (envs k) (session_at_teardown envs h k)))
                           [n..<m])
     \<and> (\<forall>k. n \<le> k \<and> k < m \<longrightarrow> list_all is_pass_event (evs k))
     \<and> (\<forall>k. n \<le> k \<and> Suc k < m \<longrightarrow>
            snd (close_browser (envs k) (session_at_teardown envs h k)) = Returns ())
     \<and> (\<forall>k. n \<le> k \<and> Suc k = m
              \<and> snd (close_browser (envs k) (session_at_teardown envs h k)) = Raises \<longrightarrow>
            fst (download_videos_from envs strftime base_url download_dir s n d trace) = Raises)"
  using start
proof (induction "Suc max_retries - n" arbitrary: n s d trace)
  case 0
  then have over: "\<not> n \<le> max_retries" by simp
  then have "download_videos_from envs strftime base_url download_dir s n d trace
               = (Returns None, trace, d)"
    by (subst download_videos_from.simps) simp
  then show ?case
    using over by (intro exI [of _ n] exI [of _ "\<lambda>k. []"]) auto
next
  case (Suc j)
  then have n: "n \<le> max_retries" by simp
  obtain ex s1 ev d1 where tb:
    "try_block (envs n) strftime base_url download_dir s n d = (ex, s1, ev, d1)"
    by (metis prod_cases4)
  have s1: "s1 = session_at_teardown envs h n"
    using try_block_session [of "envs n" strftime base_url download_dir s n d] tb Suc.prems
    by (cases n) simp_all
  obtain closing closed where cb: "close_browser (envs n) s1 = (closing, closed)"
    by (cases "close_browser (envs n) s1")
  have ev: "list_all is_pass_event ev"
    using try_block_pass_events [of "envs n" strftime base_url download_dir s n d] tb by simp
  let ?trace1 = "trace @ [Attempt n] @ ev @ [Teardown n] @ closing"
  let ?pass = "\<lambda>evs k. [Attempt k] @ evs k @ [Teardown k]
                         @ fst (close_browser (envs k) (session_at_teardown envs h k))"
  show ?case
  proof (cases "closed = Returns () \<and> ex = Continue")
    case True
    then have step: "download_videos_from envs strftime base_url download_dir s n d trace
        = download_videos_from envs strftime base_url download_dir s1 (Suc n) d1 ?trace1"
      using n tb cb by (subst download_videos_from.simps) (simp add: Let_def)
    from Suc have j: "j = Suc max_retries - Suc n" by simp
    have next_start: "s1 = (case Suc n of 0 \<Rightarrow> initial_session h
                            | Suc i \<Rightarrow> session_at_teardown envs h i)"
      using s1 by simp
    from Suc.hyps(1) [OF j next_start, of d1 ?trace1]
    obtain m evs where m: "Suc n \<le> m" "m \<le> max (Suc n) (Suc max_retries)"
      and tr: "fst (snd (download_videos_from envs strftime base_url download_dir s1 (Suc n) d1
                           ?trace1))
                 = ?trace1 @ concat (map (?pass evs) [Suc n..<m])"
      and pe: "\<forall>k. Suc n \<le> k \<and> k < m \<longrightarrow> list_all is_pass_event (evs k)"
      and cr: "\<forall>k. Suc n \<le> k \<and> Suc k < m \<longrightarrow>
                 snd (close_browser (envs k) (session_at_teardown envs h k)) = Returns ()"
      and rs: "\<forall>k. Suc n \<le> k \<and> Suc k = m
                 \<and> snd (close_browser (envs k) (session_at_teardown envs h k)) = Raises \<longrightarrow>
                 fst (download_videos_from envs strftime base_url download_dir s1 (Suc n) d1
                        ?trace1) = Raises"
      by blast
    let ?evs = "evs(n := ev)"
    have same: "map (?pass ?evs) [Suc n..<m] = map (?pass evs) [Suc n..<m]"
      by (rule map_cong) auto
    have here: "?pass ?evs n = [Attempt n] @ ev @ [Teardown n] @ closing"
      using cb s1 by simp
    have split: "[n..<m] = n # [Suc n..<m]"
      using m(1) by (simp add: upt_conv_Cons)
    have eq: "concat (map (?pass ?evs) [n..<m])
                = ?pass ?evs n @ concat (map (?pass evs) [Suc n..<m])"
      unfolding split by (simp only: list.map concat.simps same)
    have t: "fst (snd (download_videos_from envs strftime base_url download_dir s n d trace))
               = trace @ concat (map (?pass ?evs) [n..<m])"
      unfolding step tr eq here by (simp only: append_assoc)
    have p: "\<forall>k. n \<le> k \<and> k < m \<longrightarrow> list_all is_pass_event (?evs k)"
    proof (intro allI impI)
      fix k assume k: "n \<le> k \<and> k < m"
      show "list_all is_pass_event (?evs k)"
      proof (cases "k = n")
        case True
        then show ?thesis using ev by simp
      next
        case False
        with k have "Suc n \<le> k \<and> k < m" by simp
        with pe False show ?thesis by simp
      qed
    qed
    have c: "\<forall>k. n \<le> k \<and> Suc k < m \<longrightarrow>
               snd (close_browser (envs k) (session_at_teardown envs h k)) = Returns ()"
    proof (intro allI impI)
      fix k assume k: "n \<le> k \<and> Suc k < m"
      show "snd (close_browser (envs k) (session_at_teardown envs h k)) = Returns ()"
      proof (cases "k = n")
        case True
        then show ?thesis using cb s1 \<open>closed = Returns () \<and> ex = Continue\<close> by simp
      next
        case False
        with k cr show ?thesis by simp
      qed
    qed
    have r: "\<forall>k. n \<le> k \<and> Suc k = m
               \<and> snd (close_browser (envs k) (session_at_teardown envs h k)) = Raises \<longrightarrow>
               fst (download_videos_from envs strftime base_url download_dir s n d trace) = Raises"
    proof (intro allI impI)
      fix k assume k: "n \<le> k \<and> Suc k = m
               \<and> snd (close_browser (envs k) (session_at_teardown envs h k)) = Raises"
      with m(1) have "Suc n \<le> k" using cb s1 True by (cases "k = n") auto
      with k rs show "fst (download_videos_from envs strftime base_url download_dir s n d trace)
                        = Raises"
        unfolding step by blast
    qed
    have b: "n \<le> m" "m \<le> max n (Suc max_retries)" "n \<le> max_retries \<longrightarrow> n < m"
      using m n by simp_all
    show ?thesis
      apply (rule exI [of _ m])
      apply (rule exI [of _ ?evs])
      apply (insert b t p c r)
      apply (intro conjI)
            apply assumption+
      done
  next
    case False
    then have stop: "download_videos_from envs strftime base_url download_dir s n d trace
        = (case closed of Raises \<Rightarrow> Raises | Returns u \<Rightarrow> (case ex of Return b \<Rightarrow> Returns (Some b)
             | Continue \<Rightarrow> Raises), ?trace1, d1)"
      using n tb cb
      by (subst download_videos_from.simps) (cases closed; cases ex; simp add: Let_def)
    let ?evs = "\<lambda>k::nat. ev"
    have t: "fst (snd (download_videos_from envs strftime base_url download_dir s n d trace))
               = trace @ concat (map (?pass ?evs) [n..<Suc n])"
      unfolding stop using cb s1 by simp
    have p: "\<forall>k. n \<le> k \<and> k < Suc n \<longrightarrow> list_all is_pass_event (?evs k)"
      using ev by simp
    have c: "\<forall>k. n \<le> k \<and> Suc k < Suc n \<longrightarrow>
               snd (close_browser (envs k) (session_at_teardown envs h k)) = Returns ()"
      by auto
    have r: "\<forall>k. n \<le> k \<and> Suc k = Suc n
               \<and> snd (close_browser (envs k) (session_at_teardown envs h k)) = Raises \<longrightarrow>
               fst (download_videos_from envs strftime base_url download_dir s n d trace) = Raises"
      unfolding stop using cb s1 by auto
    have b: "n \<le> Suc n" "Suc n \<le> max n (Suc max_retries)" "n \<le> max_retries \<longrightarrow> n < Suc n"
      using n by simp_all
    show ?thesis
      apply (rule exI [of _ "Suc n"])
      apply (rule exI [of _ ?evs])
      apply (insert b t p c r)
      apply (intro conjI)
            apply assumption+
      done
  qed
qed

text \<open>
  C7, as amended. The teardown runs in every pass of the run loop, whatever the pass did:
  the trace of a run is that of one to three passes, and in each pass the entry of the
  \<open>finally\<close> clause is followed by exactly the closes that \<open>close_browser\<close> makes on the
  session the pass has set up, in the world of that pass. A further pass follows only a
  teardown that returned, and when the teardown of the last pass raises,
  \<open>download_videos\<close> raises. \<open>close_browser\<close> makes the closes due (the page, the
  context, the browser and the driver, in that order, each only if the resource exists) up
  to and including the first one that raises; the closes after it are not made; and it
  raises exactly when one of the closes due raises.
\<close>

theorem teardown_runs_and_stops_at_failure:
  "(\<exists>m evs. 0 < m \<and> m \<le> Suc max_retries
      \<and> fst (snd (download_videos envs strftime base_url download_dir start_headless start_disk))
          = concat (map (\<lambda>k. [Attempt k] @ evs k @ [Teardown k]
                                @ fst (close_browser (envs k)
                                         (session_at_teardown envs start_headless k)))
                        [0..<m])
      \<and> (\<forall>k. k < m \<longrightarrow> list_all is_pass_event (evs k))
      \<and> (\<forall>k. Suc k < m \<longrightarrow>
             snd (close_browser (envs k) (session_at_teardown envs start_headless k)) = Returns ())
      \<and> (\<forall>k. Suc k = m
               \<and> snd (close_browser (envs k) (session_at_teardown envs start_headless k)) = Raises
             \<longrightarrow> fst (download_videos envs strftime base_url download_dir start_headless
                        start_disk) = Raises))
   \<and> (\<forall>env s. close_browser env s
         = (map fst (takeWhile close_returns (closes_due env s))
            @ (case dropWhile close_returns (closes_due env s) of
                 [] \<Rightarrow> [] | c # rest \<Rightarrow> [fst c]),
            if list_all close_returns (closes_due env s) then Returns () else Raises))
   \<and> (\<forall>env s. map fst (closes_due env s) = due_closes s)"
proof (intro conjI allI)
  have start: "initial_session start_headless
                 = (case 0::nat of 0 \<Rightarrow> initial_session start_headless
                    | Suc j \<Rightarrow> session_at_teardown envs start_headless j)"
    by simp
  from passes_of_run [OF start, of strftime base_url download_dir start_disk "[]"]
  obtain m evs where b: "0 < m" "m \<le> Suc max_retries"
    and t: "fst (snd (download_videos_from envs strftime base_url download_dir
                        (initial_session start_headless) 0 start_disk []))
              = concat (map (\<lambda>k. [Attempt k] @ evs k @ [Teardown k]
                                @ fst (close_browser (envs k)
                                         (session_at_teardown envs start_headless k)))
                        [0..<m])"
    and p: "\<forall>k. k < m \<longrightarrow> list_all is_pass_event (evs k)"
    and c: "\<forall>k. Suc k < m \<longrightarrow>
             snd (close_browser (envs k) (session_at_teardown envs start_headless k)) = Returns ()"
    and r: "\<forall>k. Suc k = m
               \<and> snd (close_browser (envs k) (session_at_teardown envs start_headless k)) = Raises
             \<longrightarrow> fst (download_videos_from envs strftime base_url download_dir
                        (initial_session start_headless) 0 start_disk []) = Raises"
    by (auto simp add: max_retries_def)
  have run: "download_videos envs strftime base_url download_dir start_headless start_disk
               = download_videos_from envs strftime base_url download_dir
                   (initial_session start_headless) 0 start_disk []"
    by (simp add: download_videos_def initial_session_def)
  show "\<exists>m evs. 0 < m \<and> m \<le> Suc max_retries
      \<and> fst (snd (download_videos envs strftime base_url download_dir start_headless start_disk))
          = concat (map (\<lambda>k. [Attempt k] @ evs k @ [Teardown k]
                                @ fst (close_browser (envs k)
                                         (session_at_teardown envs start_headless k)))
                        [0..<m])
      \<and> (\<forall>k. k < m \<longrightarrow> list_all is_pass_event (evs k))
      \<and> (\<forall>k. Suc k < m \<longrightarrow>
             snd (close_browser (envs k) (session_at_teardown envs start_headless k)) = Returns ())
      \<and> (\<forall>k. Suc k = m
               \<and> snd (close_browser (envs k) (session_at_teardown envs start_headless k)) = Raises
             \<longrightarrow> fst (download_videos envs strftime base_url download_dir start_headless
                        start_disk) = Raises)"
    unfolding run
    apply (rule exI [of _ m])
    apply (rule exI [of _ evs])
    apply (insert b t p c r)
    apply (intro conjI)
        apply assumption+
    done
next
  fix env s
  show "close_browser env s
         = (map fst (takeWhile close_returns (closes_due env s))
            @ (case dropWhile close_returns (closes_due env s) of
                 [] \<Rightarrow> [] | c # rest \<Rightarrow> [fst c]),
            if list_all close_returns (closes_due env s) then Returns () else Raises)"
    by (rule close_browser_until_failure)
next
  fix env :: attempt_env and s
  show "map fst (closes_due env s) = due_closes s"
    by (simp add: closes_due_def due_closes_def split: option.splits)
qed

theorem teardown_runs_and_stops_at_failure_witness:
  "fst (download_videos (\<lambda>n.
        \<lparr>start_playwright = Returns (), launch = (\<lambda>h. Returns ()),
         new_context = Returns (), new_page = Returns (),
         page_goto = (\<lambda>url. Returns ()), login = False,
         filters = \<lparr>click = (\<lambda>selector. Returns ()), evaluate = (\<lambda>js. Returns ()),
                    videos_days = None\<rparr>,
         system_date = 739560, cards = Returns [],
         downloads = \<lparr>mkdir = (\<lambda>p. Returns ()), requests_get = (\<lambda>u. Raises),
                      open_wb = (\<lambda>p. Returns ()), set_extra_http_headers = Returns (),
                      expect_download = (\<lambda>u. Raises), save_as = (\<lambda>p. Returns ()),
                      goto = (\<lambda>u. Returns ()), evaluate_click = (\<lambda>i. Returns False)\<rparr>,
         page_close = Raises, context_close = Returns (),
         browser_close = Returns (), playwright_stop = Returns ()\<rparr>)
        (\<lambda>d. ''20251029'') ''https://hoopsfactory.com'' ''./downloads'' True Map.empty) = Raises
   \<and> close_browser
        \<lparr>start_playwright = Returns (), launch = (\<lambda>h. Returns ()),
         new_context = Returns (), new_page = Returns (),
         page_goto = (\<lambda>url. Returns ()), login = False,
         filters = \<lparr>click = (\<lambda>selector. Returns ()), evaluate = (\<lambda>js. Returns ()),
                    videos_days = None\<rparr>,
         system_date = 739560, cards = Returns [],
         downloads = \<lparr>mkdir = (\<lambda>p. Returns ()), requests_get = (\<lambda>u. Raises),
                      open_wb = (\<lambda>p. Returns ()), set_extra_http_headers = Returns (),
                      expect_download = (\<lambda>u. Raises), save_as = (\<lambda>p. Returns ()),
                      goto = (\<lambda>u. Returns ()), evaluate_click = (\<lambda>i. Returns False)\<rparr>,
         page_close = Returns (), context_close = Returns (),
         browser_close = Returns (), playwright_stop = Returns ()\<rparr>
        \<lparr>headless = True, playwright = Some 0, browser = Some 0, browser_context = Some 0, page = Some 0\<rparr>
       = ([Close_page 0, Close_context 0, Close_browser 0, Stop_playwright 0], Returns ())"
proof -
  let ?E = "\<lparr>start_playwright = Returns (), launch = (\<lambda>h. Returns ()),
         new_context = Returns (), new_page = Returns (),
         page_goto = (\<lambda>url. Returns ()), login = False,
         filters = \<lparr>click = (\<lambda>selector. Returns ()), evaluate = (\<lambda>js. Returns ()),
                    videos_days = None\<rparr>,
         system_date = 739560, cards = Returns [],
         downloads = \<lparr>mkdir = (\<lambda>p. Returns ()), requests_get = (\<lambda>u. Raises),
                      open_wb = (\<lambda>p. Returns ()), set_extra_http_headers = Returns (),
                      expect_download = (\<lambda>u. Raises), save_as = (\<lambda>p. Returns ()),
                      goto = (\<lambda>u. Returns ()), evaluate_click = (\<lambda>i. Returns False)\<rparr>,
         page_close = Raises, context_close = Returns (),
         browser_close = Returns (), playwright_stop = Returns ()\<rparr>"
  let ?run = "download_videos (\<lambda>n. ?E) (\<lambda>d. ''20251029'') ''https://hoopsfactory.com'' ''./downloads''
                True Map.empty"
  note th = teardown_runs_and_stops_at_failure [where envs = "\<lambda>n. ?E"
      and strftime = "(\<lambda>d. ''20251029'')" and base_url = "''https://hoopsfactory.com''"
      and download_dir = "''./downloads''" and start_headless = True and start_disk = Map.empty]
  from th [THEN conjunct1]
  obtain m :: nat where m: "0 < m"
    and c: "\<forall>k. Suc k < m \<longrightarrow>
              snd (close_browser ?E (session_at_teardown (\<lambda>n. ?E) True k)) = Returns ()"
    and r: "\<forall>k. Suc k = m \<and> snd (close_browser ?E (session_at_teardown (\<lambda>n. ?E) True k)) = Raises
              \<longrightarrow> fst ?run = Raises"
    by (elim exE conjE) blast
  have c0: "snd (close_browser ?E (session_at_teardown (\<lambda>n. ?E) True 0)) = Raises"
    by (simp add: pass_session_def setup_browser_def escalate_def initial_session_def
        close_browser_def guarded_close_def)
  have "\<not> Suc 0 < m"
    using c c0 by auto
  with m have "Suc 0 = m" by simp
  with r c0 have raised: "fst ?run = Raises" by blast
  have closes: "close_browser
        \<lparr>start_playwright = Returns (), launch = (\<lambda>h. Returns ()),
         new_context = Returns (), new_page = Returns (),
         page_goto = (\<lambda>url. Returns ()), login = False,
         filters = \<lparr>click = (\<lambda>selector. Returns ()), evaluate = (\<lambda>js. Returns ()),
                    videos_days = None\<rparr>,
         system_date = 739560, cards = Returns [],
         downloads = \<lparr>mkdir = (\<lambda>p. Returns ()), requests_get = (\<lambda>u. Raises),
                      open_wb = (\<lambda>p. Returns ()), set_extra_http_headers = Returns (),
                      expect_download = (\<lambda>u. Raises), save_as = (\<lambda>p. Returns ()),
                      goto = (\<lambda>u. Returns ()), evaluate_click = (\<lambda>i. Returns False)\<rparr>,
         page_close = Returns (), context_close = Returns (),
         browser_close = Returns (), playwright_stop = Returns ()\<rparr>
        \<lparr>headless = True, playwright = Some 0, browser = Some 0, browser_context = Some 0, page = Some 0\<rparr>
       = ([Close_page 0, Close_context 0, Close_browser 0, Stop_playwright 0], Returns ())"
    using th [THEN conjunct2, THEN conjunct1]
    by (simp add: closes_due_def close_returns_def)
  from raised closes show ?thesis by simp
qed

text \<open>
  C7 as stated fails when closing the page raises: the context, the browser and the
  driver are left open, although each of their closes would have returned.
\<close>

theorem teardown_page_close_counterexample:
  "close_browser
     \<lparr>start_playwright = Returns (), launch = (\<lambda>h. Returns ()),
      new_context = Returns (), new_page = Returns (),
      page_goto = (\<lambda>url. Returns ()), login = False,
      filters = \<lparr>click = (\<lambda>selector. Returns ()), evaluate = (\<lambda>js. Returns ()),
                 videos_days = None\<rparr>,
      system_date = 739560, cards = Returns [],
      downloads = \<lparr>mkdir = (\<lambda>p. Returns ()), requests_get = (\<lambda>u. Raises),
                   open_wb = (\<lambda>p. Returns ()), set_extra_http_headers = Returns (),
                   expect_download = (\<lambda>u. Raises), save_as = (\<lambda>p. Returns ()),
                   goto = (\<lambda>u. Returns ()), evaluate_click = (\<lambda>i. Returns False)\<rparr>,
      page_close = Raises, context_close = Returns (),
      browser_close = Returns (), playwright_stop = Returns ()\<rparr>
     \<lparr>headless = True, playwright = Some 0, browser = Some 0, browser_context = Some 0, page = Some 0\<rparr>
   = ([Close_page 0], Raises)
   \<and> due_closes \<lparr>headless = True, playwright = Some 0, browser = Some 0, browser_context = Some 0, page = Some 0\<rparr>
       = [Close_page 0, Close_context 0, Close_browser 0, Stop_playwright 0]"
  by (simp add: close_browser_def guarded_close_def due_closes_def)

end
